theory Spec2Isabelle
  imports Complex_Main "HOL-Library.Sublist"
begin

section \<open>Python strings\<close>

text \<open>
  Text is modelled as ASCII: a \<^typ>\<open>string\<close> is the list of its characters, and the
  case conversions and the regular expression class \<^verbatim>\<open>\w\<close> are the ASCII ones
  (letters, digits, underscore).
\<close>

definition ascii_upper :: string where
  "ascii_upper = ''ABCDEFGHIJKLMNOPQRSTUVWXYZ''"

definition ascii_lower :: string where
  "ascii_lower = ''abcdefghijklmnopqrstuvwxyz''"

definition ascii_digits :: string where
  "ascii_digits = ''0123456789''"

definition is_word :: "char \<Rightarrow> bool" where
  \<comment> \<open>the class \<^verbatim>\<open>\w\<close>\<close>
  "is_word c = (c \<in> set (ascii_lower @ ascii_upper @ ascii_digits @ ''_''))"

definition is_cased :: "char \<Rightarrow> bool" where
  "is_cased c = (c \<in> set (ascii_lower @ ascii_upper))"

definition lower_char :: "char \<Rightarrow> char" where
  "lower_char c = (case map_of (zip ascii_upper ascii_lower) c of Some d \<Rightarrow> d | None \<Rightarrow> c)"

definition upper_char :: "char \<Rightarrow> char" where
  "upper_char c = (case map_of (zip ascii_lower ascii_upper) c of Some d \<Rightarrow> d | None \<Rightarrow> c)"

definition str_lower :: "string \<Rightarrow> string" where
  \<comment> \<open>\<^verbatim>\<open>s.lower()\<close>\<close>
  "str_lower s = map lower_char s"

definition capitalize :: "string \<Rightarrow> string" where
  \<comment> \<open>\<^verbatim>\<open>s.capitalize()\<close>: first character upper case, the rest lower case\<close>
  "capitalize s = (case s of [] \<Rightarrow> [] | c # cs \<Rightarrow> upper_char c # map lower_char cs)"

fun title_from :: "bool \<Rightarrow> string \<Rightarrow> string" where
  "title_from previous_is_cased [] = []"
| "title_from previous_is_cased (c # cs) =
     (if previous_is_cased then lower_char c else upper_char c) # title_from (is_cased c) cs"

definition title :: "string \<Rightarrow> string" where
  \<comment> \<open>\<^verbatim>\<open>s.title()\<close>: a cased character is upper case when it follows an uncased one
      (or starts the string), lower case otherwise\<close>
  "title s = title_from False s"

definition replace_char :: "char \<Rightarrow> string \<Rightarrow> string \<Rightarrow> string" where
  \<comment> \<open>\<^verbatim>\<open>s.replace(old, new)\<close> for a one-character \<^verbatim>\<open>old\<close>\<close>
  "replace_char old new s = concat (map (\<lambda>c. if c = old then new else [c]) s)"

fun split_on :: "char \<Rightarrow> string \<Rightarrow> string list" where
  \<comment> \<open>\<^verbatim>\<open>s.split(sep)\<close> for a one-character separator\<close>
  "split_on sep [] = [[]]"
| "split_on sep (c # cs) =
     (if c = sep then [] # split_on sep cs
      else (case split_on sep cs of [] \<Rightarrow> [[c]] | w # ws \<Rightarrow> (c # w) # ws))"

fun join :: "string \<Rightarrow> string list \<Rightarrow> string" where
  \<comment> \<open>\<^verbatim>\<open>sep.join(xs)\<close>\<close>
  "join sep [] = []"
| "join sep [x] = x"
| "join sep (x # y # ys) = x @ sep @ join sep (y # ys)"

fun contains :: "string \<Rightarrow> string \<Rightarrow> bool" where
  \<comment> \<open>\<^verbatim>\<open>sub in s\<close>\<close>
  "contains sub [] = (sub = [])"
| "contains sub (c # cs) = (prefix sub (c # cs) \<or> contains sub cs)"

definition endswith :: "string \<Rightarrow> string \<Rightarrow> bool" where
  \<comment> \<open>\<^verbatim>\<open>s.endswith(suf)\<close>\<close>
  "endswith s suf = prefix (rev suf) (rev s)"

section \<open>Interpolation engine (template_engine.py)\<close>

text \<open>
  The values of a variable mapping: \<^verbatim>\<open>TemplateContext.to_dict\<close> stores strings, the
  float \<^verbatim>\<open>confidence\<close> and the list of strings \<^verbatim>\<open>archetypes\<close>. A float is
  modelled by the rational number it denotes; how Python prints a float (\<^verbatim>\<open>str(x)\<close>) is a
  parameter \<open>str_float\<close> of the functions that need it.
\<close>

datatype pyval = PStr string | PFloat rat | PList "string list"

type_synonym variables = "string \<rightharpoonup> pyval"

definition placeholder :: "string \<Rightarrow> string" where
  \<comment> \<open>the f-string \<^verbatim>\<open>f"${{{var_name}}}"\<close>\<close>
  "placeholder var_name = ''${'' @ var_name @ ''}''"

definition replace_var :: "(rat \<Rightarrow> string) \<Rightarrow> variables \<Rightarrow> string \<Rightarrow> string" where
  "replace_var str_float variables var_name =
     (case variables var_name of
        None \<Rightarrow> placeholder var_name
      | Some (PList vs) \<Rightarrow> join '', '' vs
      | Some (PStr s) \<Rightarrow> s
      | Some (PFloat x) \<Rightarrow> str_float x)"

text \<open>
  \<open>match_var s\<close> is the match of the pattern \<^verbatim>\<open>\$\{(\w+)\}\<close> at the start of \<open>s\<close>:
  the captured name and the text after the match. The greedy \<^verbatim>\<open>\w+\<close> takes every word
  character; the closing brace is not one, so no shorter name can match.
\<close>

definition match_var :: "string \<Rightarrow> (string \<times> string) option" where
  "match_var s =
     (case s of
        d # b # r \<Rightarrow>
          if d = CHR ''$'' \<and> b = CHR ''{'' then
            (case dropWhile is_word r of
               [] \<Rightarrow> None
             | c # rest \<Rightarrow>
                 if takeWhile is_word r \<noteq> [] \<and> c = CHR ''}''
                 then Some (takeWhile is_word r, rest) else None)
          else None
      | _ \<Rightarrow> None)"

lemma match_var_shorter:
  assumes "match_var s = Some (name, rest)"
  shows "length rest < length s"
proof -
  from assms obtain r c where s: "s = CHR ''$'' # CHR ''{'' # r"
    and d: "dropWhile is_word r = c # rest"
    by (auto simp: match_var_def split: list.splits if_splits)
  have "length (dropWhile is_word r) \<le> length r"
    by (rule length_dropWhile_le)
  with d s show ?thesis by simp
qed

text \<open>
  \<^verbatim>\<open>pattern.sub(replace_var, template)\<close>: the matches are found from left to right and
  do not overlap; text outside a match is copied.
\<close>

function interpolate :: "(rat \<Rightarrow> string) \<Rightarrow> variables \<Rightarrow> string \<Rightarrow> string" where
  "interpolate str_float variables [] = []"
| "interpolate str_float variables (c # cs) =
     (case match_var (c # cs) of
        None \<Rightarrow> c # interpolate str_float variables cs
      | Some (var_name, rest) \<Rightarrow>
          replace_var str_float variables var_name @ interpolate str_float variables rest)"
  by pat_completeness auto
termination
  by (relation "measure (\<lambda>(f, v, s). length s)") (auto dest: match_var_shorter)

fun has_placeholder :: "string \<Rightarrow> bool" where
  \<comment> \<open>\<^verbatim>\<open>pattern.search(s) is not None\<close>\<close>
  "has_placeholder [] = False"
| "has_placeholder (c # cs) = (match_var (c # cs) \<noteq> None \<or> has_placeholder cs)"

section \<open>Built-in templates (template_engine.py)\<close>

definition tab :: string where
  "tab = [CHR 0x09]"

definition text_lines :: "string list \<Rightarrow> string" where
  \<comment> \<open>a text given line by line: every line is followed by a newline\<close>
  "text_lines ls = concat (map (\<lambda>l. l @ ''\<newline>'') ls)"

definition builtin_runbook_template :: string where
  \<open>builtin_runbook_template = text_lines [
     ''# ${SERVICE_NAME} Runbook'',
     '''',
     ''## Service Overview'',
     '''',
     ''| Attribute | Value |'',
     ''|-----------|-------|'',
     ''| **Service URN** | `${SERVICE_URN}` |'',
     ''| **Owner Team** | ${OWNER_TEAM} |'',
     ''| **Namespace** | ${NAMESPACE} |'',
     ''| **Archetypes** | ${ARCHETYPES} |'',
     '''',
     ''## Observability'',
     '''',
     ''### Metrics'',
     '''',
     ''| Metric | Description | Alert Threshold |'',
     ''|--------|-------------|-----------------|'',
     ''| `otel_span_count` | Count of OTel spans emitted | < 1/min = warning |'',
     ''| `kafka_consumer_lag` | Kafka consumer group lag | > 1000 = critical |'',
     ''| `error_rate` | Error rate (5xx responses) | > 5% = critical |'',
     '''',
     ''### Traces'',
     '''',
     ''This service emits OpenTelemetry traces for:'',
     ''- Kafka consumer processing'',
     ''- Kafka producer sends'',
     ''- HTTP/gRPC requests'',
     '''',
     ''**Trace Attributes:**'',
     ''- `service.name`: ${SERVICE_NAME}'',
     ''- `service.namespace`: ${NAMESPACE}'',
     ''- `x-obs-dataproduct-urn`: ${SERVICE_URN}'',
     '''',
     ''### Dashboards'',
     '''',
     ''- [Service Dashboard](https://grafana.internal/d/${SERVICE_NAME})'',
     ''- [Kafka Consumer Lag](https://grafana.internal/d/kafka-lag?var-consumer_group=${CONSUMER_GROUP})'',
     '''',
     ''## Common Issues'',
     '''',
     ''### High Consumer Lag'',
     '''',
     ''**Symptoms:** Kafka consumer lag exceeds threshold'',
     '''',
     ''**Investigation:**'',
     ''1. Check consumer pod health: `kubectl get pods -l app=${SERVICE_NAME}`'',
     ''2. Check consumer logs: `kubectl logs -l app=${SERVICE_NAME} --tail=100`'',
     ''3. Verify topic partitions: Check Kafka UI for partition distribution'',
     '''',
     ''**Resolution:**'',
     ''- Scale up consumers if processing is CPU-bound'',
     ''- Check for slow downstream dependencies'',
     ''- Verify no poison pill messages'',
     '''',
     ''### Missing Traces'',
     '''',
     ''**Symptoms:** Spans not appearing in tracing backend'',
     '''',
     ''**Investigation:**'',
     ''1. Check OTel Collector health'',
     ''2. Verify OTEL_EXPORTER_OTLP_ENDPOINT environment variable'',
     ''3. Check for sampling configuration'',
     '''',
     ''**Resolution:**'',
     ''- Restart OTel Collector sidecar'',
     ''- Verify network connectivity to collector'',
     '''',
     ''## Contacts'',
     '''',
     ''- **On-call Team:** ${OWNER_TEAM}'',
     ''- **Slack Channel:** #${SERVICE_NAME}-alerts'',
     ''- **Escalation:** Platform Team'',
     '''',
     ''---'',
     ''*Generated by Instrumentation Autopilot*'',
     ''*Last Updated: ${TIMESTAMP}*'']\<close>

definition builtin_lineage_template :: string where
  \<open>builtin_lineage_template = text_lines [
     ''# Lineage Specification for ${SERVICE_NAME}'',
     ''# Generated by Instrumentation Autopilot'',
     '''',
     ''apiVersion: lineage.autopilot.io/v1'',
     ''kind: LineageSpec'',
     ''metadata:'',
     ''  name: ${SERVICE_NAME}'',
     ''  namespace: ${NAMESPACE}'',
     ''  labels:'',
     ''    autopilot.io/managed: "true"'',
     ''    autopilot.io/diff-plan-id: "${DIFF_PLAN_ID}"'',
     '''',
     ''spec:'',
     ''  service:'',
     ''    urn: "${SERVICE_URN}"'',
     ''    name: "${SERVICE_NAME}"'',
     ''    owner: "${OWNER_TEAM}"'',
     '''',
     ''  inputs:'',
     ''    - name: input-stream'',
     ''      type: kafka-topic'',
     ''      urn: "urn:kafka:${NAMESPACE}:${INPUT_TOPIC}"'',
     ''      schema:'',
     ''        registry: schema-registry'',
     ''        subject: "${INPUT_TOPIC}-value"'',
     '''',
     ''  outputs:'',
     ''    - name: output-stream'',
     ''      type: kafka-topic'',
     ''      urn: "urn:kafka:${NAMESPACE}:${OUTPUT_TOPIC}"'',
     ''      schema:'',
     ''        registry: schema-registry'',
     ''        subject: "${OUTPUT_TOPIC}-value"'',
     '''',
     ''  transformations:'',
     ''    - name: enrich'',
     ''      description: "Enriches input records with additional data"'',
     ''      inputs: [input-stream]'',
     ''      outputs: [output-stream]'',
     ''      sla:'',
     ''        latencyP99: 500ms'',
     ''        throughput: 1000/s'']\<close>

definition builtin_contract_template :: string where
  \<open>builtin_contract_template = text_lines [
     ''# Data Contract for ${SERVICE_NAME}'',
     ''# Generated by Instrumentation Autopilot'',
     '''',
     ''apiVersion: contracts.autopilot.io/v1'',
     ''kind: DataContract'',
     ''metadata:'',
     ''  name: ${SERVICE_NAME}-contract'',
     ''  namespace: ${NAMESPACE}'',
     ''  labels:'',
     ''    autopilot.io/managed: "true"'',
     ''    autopilot.io/diff-plan-id: "${DIFF_PLAN_ID}"'',
     '''',
     ''spec:'',
     ''  owner: ${OWNER_TEAM}'',
     ''  description: "Data contract for ${SERVICE_NAME} output"'',
     '''',
     ''  dataset:'',
     ''    urn: "urn:kafka:${NAMESPACE}:${OUTPUT_TOPIC}"'',
     ''    type: kafka-topic'',
     '''',
     ''  schema:'',
     ''    format: avro'',
     ''    registry: schema-registry'',
     ''    subject: "${OUTPUT_TOPIC}-value"'',
     '''',
     ''  slos:'',
     ''    freshness:'',
     ''      maxStalenessMinutes: 5'',
     ''      monitoringWindow: 1h'',
     '''',
     ''    volume:'',
     ''      expectedDailyRecords: 100000'',
     ''      warningThresholdPercent: 20'',
     ''      criticalThresholdPercent: 50'',
     '''',
     ''    quality:'',
     ''      nullRateThreshold: 0.01'',
     ''      duplicateRateThreshold: 0.001'',
     '''',
     ''  notifications:'',
     ''    - channel: slack'',
     ''      target: "#${SERVICE_NAME}-alerts"'',
     ''      severity: critical'',
     '''',
     ''    - channel: pagerduty'',
     ''      target: ${OWNER_TEAM}-oncall'',
     ''      severity: critical'']\<close>

definition builtin_java_test_template :: string where
  \<open>builtin_java_test_template = text_lines [
     ''package com.company.${NAMESPACE}.${MODULE_NAME}.otel;'',
     '''',
     ''import org.junit.jupiter.api.BeforeEach;'',
     ''import org.junit.jupiter.api.Test;'',
     ''import static org.junit.jupiter.api.Assertions.*;'',
     '''',
     ''/**'',
     '' * Telemetry validation tests for ${SERVICE_NAME}.'',
     '' * Generated by: Instrumentation Autopilot'',
     '' * Diff Plan ID: ${DIFF_PLAN_ID}'',
     '' */'',
     ''class ${CLASS_NAME}OtelInterceptorTest {'',
     '''',
     ''    private static final String TEST_TOPIC = "${INPUT_TOPIC}";'',
     ''    private static final String TEST_SERVICE = "${SERVICE_NAME}";'',
     '''',
     ''    @BeforeEach'',
     ''    void setUp() {'',
     ''        // Initialize test tracer'',
     ''    }'',
     '''',
     ''    @Test'',
     ''    void shouldCreateConsumerSpanForMessage() {'',
     ''        // Test that consumer span is created with correct attributes'',
     ''        // messaging.system = "kafka"'',
     ''        // messaging.destination = TEST_TOPIC'',
     ''        // service.name = TEST_SERVICE'',
     ''        assertTrue(true, "Span creation test");'',
     ''    }'',
     '''',
     ''    @Test'',
     ''    void shouldExtractObservabilityHeaders() {'',
     ''        // Test that x-obs-* headers are extracted as span attributes'',
     ''        assertTrue(true, "Header extraction test");'',
     ''    }'',
     '''',
     ''    @Test'',
     ''    void shouldPropagateTraceContext() {'',
     ''        // Test that trace context is propagated to downstream calls'',
     ''        assertTrue(true, "Context propagation test");'',
     ''    }'',
     ''}'']\<close>

definition builtin_python_test_template :: string where
  \<open>builtin_python_test_template = text_lines [
     ''"""'',
     ''Telemetry validation tests for ${SERVICE_NAME}.'',
     ''Generated by: Instrumentation Autopilot'',
     ''Diff Plan ID: ${DIFF_PLAN_ID}'',
     ''"""'',
     '''',
     ''import pytest'',
     ''from unittest.mock import Mock'',
     '''',
     ''TEST_TOPIC = "${INPUT_TOPIC}"'',
     ''TEST_SERVICE = "${SERVICE_NAME}"'',
     ''TEST_CONSUMER_GROUP = "${CONSUMER_GROUP}"'',
     '''',
     '''',
     ''class TestOtelKafkaWrapper:'',
     ''    """Test suite for OTel Kafka wrapper instrumentation."""'',
     '''',
     ''    def test_consumer_span_created(self):'',
     ''        """Verify consumer span is created for incoming message."""'',
     ''        # Test implementation'',
     ''        assert True'',
     '''',
     ''    def test_trace_context_extraction(self):'',
     ''        """Verify trace context is extracted from Kafka headers."""'',
     ''        # Test implementation'',
     ''        assert True'',
     '''',
     ''    def test_correlation_headers_extraction(self):'',
     ''        """Verify x-obs-* headers are extracted as span attributes."""'',
     ''        # Test implementation'',
     ''        assert True'',
     '''',
     ''    def test_producer_span_created(self):'',
     ''        """Verify producer span is created when sending message."""'',
     ''        # Test implementation'',
     ''        assert True'',
     '''',
     '''',
     ''if __name__ == "__main__":'',
     ''    pytest.main([__file__, "-v"])'']\<close>

definition builtin_go_test_template :: string where
  \<open>builtin_go_test_template = text_lines [
     ''package otel'',
     '''',
     ''import ('',
     tab @ ''"context"'',
     tab @ ''"testing"'',
     '''',
     tab @ ''"github.com/stretchr/testify/assert"'',
     '')'',
     '''',
     ''const ('',
     tab @ ''testTopic         = "${INPUT_TOPIC}"'',
     tab @ ''testService       = "${SERVICE_NAME}"'',
     tab @ ''testConsumerGroup = "${CONSUMER_GROUP}"'',
     '')'',
     '''',
     ''func TestStartConsumerSpan(t *testing.T) {'',
     tab @ ''// Test that consumer span is created with correct attributes'',
     tab @ ''ctx := context.Background()'',
     tab @ ''assert.NotNil(t, ctx)'',
     ''}'',
     '''',
     ''func TestStartProducerSpan(t *testing.T) {'',
     tab @ ''// Test that producer span is created with correct attributes'',
     tab @ ''ctx := context.Background()'',
     tab @ ''assert.NotNil(t, ctx)'',
     ''}'',
     '''',
     ''func TestExtractContext(t *testing.T) {'',
     tab @ ''// Test that trace context is extracted from headers'',
     tab @ ''ctx := context.Background()'',
     tab @ ''assert.NotNil(t, ctx)'',
     ''}'',
     '''',
     ''func TestInjectContext(t *testing.T) {'',
     tab @ ''// Test that trace context is injected into headers'',
     tab @ ''ctx := context.Background()'',
     tab @ ''assert.NotNil(t, ctx)'',
     ''}'']\<close>

section \<open>Errors, effects and the environment\<close>

text \<open>
  An exception is a value: a function that can raise returns \<open>error + 'a\<close>, with \<open>Inl\<close>
  the exception. \<open>OtherError\<close> stands for the exceptions of the file system and of the
  version-control client (\<^verbatim>\<open>OSError\<close>, \<^verbatim>\<open>RuntimeError\<close>, HTTP errors).
\<close>

datatype error = ValueError string | KeyError string | OtherError string

definition str_error :: "error \<Rightarrow> string" where
  \<comment> \<open>\<^verbatim>\<open>str(e)\<close>; a \<^verbatim>\<open>KeyError\<close> prints its key quoted\<close>
  "str_error e =
     (case e of
        ValueError m \<Rightarrow> m
      | KeyError k \<Rightarrow> [CHR 0x27] @ k @ [CHR 0x27]
      | OtherError m \<Rightarrow> m)"

text \<open>
  What a run does besides returning: the lines it prints and the calls it makes to the
  version-control client, in order.
\<close>

datatype event =
    Print string
  | CreateBranch string string string
      \<comment> \<open>\<^verbatim>\<open>repo_url\<close>, \<^verbatim>\<open>branch_name\<close>, \<^verbatim>\<open>base_branch\<close>\<close>
  | CommitFiles string string "(string \<times> string) list" string
      \<comment> \<open>\<^verbatim>\<open>repo_url\<close>, \<^verbatim>\<open>branch_name\<close>, \<^verbatim>\<open>files\<close>, \<^verbatim>\<open>message\<close>\<close>
  | CreatePullRequest string string string string string "string list"
      \<comment> \<open>\<^verbatim>\<open>repo_url\<close>, \<^verbatim>\<open>title\<close>, \<^verbatim>\<open>body\<close>, \<^verbatim>\<open>head_branch\<close>, \<^verbatim>\<open>base_branch\<close>, \<^verbatim>\<open>labels\<close>\<close>

type_synonym 'a io = "(error + 'a) \<times> event list"

definition return_io :: "'a \<Rightarrow> 'a io" where
  "return_io x = (Inr x, [])"

definition raise_io :: "error \<Rightarrow> 'a io" where
  "raise_io e = (Inl e, [])"

definition lift_io :: "error + 'a \<Rightarrow> 'a io" where
  "lift_io r = (r, [])"

definition print_io :: "string \<Rightarrow> unit io" where
  "print_io s = (Inr (), [Print s])"

definition bind_io :: "'a io \<Rightarrow> ('a \<Rightarrow> 'b io) \<Rightarrow> 'b io" where
  \<comment> \<open>sequencing: an exception ends the run, the events so far stay\<close>
  "bind_io m f =
     (case m of
        (Inl e, out) \<Rightarrow> (Inl e, out)
      | (Inr x, out) \<Rightarrow> (case f x of (r, out') \<Rightarrow> (r, out @ out')))"

definition is_vcs_call :: "event \<Rightarrow> bool" where
  "is_vcs_call ev = (case ev of Print s \<Rightarrow> False | _ \<Rightarrow> True)"

record pr_result =
  pr_result_number :: "int option"
  pr_result_url :: "string option"

text \<open>
  The environment of a run: how Python formats a float, the two clock readings, the
  directory tree below \<^verbatim>\<open>templates_path\<close> (a path is the list of names joined to it), and
  the answers of the version-control client.
\<close>

record env =
  str_float :: "rat \<Rightarrow> string"
    \<comment> \<open>\<^verbatim>\<open>str(x)\<close>\<close>
  fmt_2f :: "rat \<Rightarrow> string"
    \<comment> \<open>\<^verbatim>\<open>f"{x:.2f}"\<close>\<close>
  fmt_pct :: "rat \<Rightarrow> string"
    \<comment> \<open>\<^verbatim>\<open>f"{x:.0%}"\<close>\<close>
  utc_now_isoformat :: string
    \<comment> \<open>\<^verbatim>\<open>datetime.now(timezone.utc).isoformat()\<close>\<close>
  now_timestamp :: int
    \<comment> \<open>\<^verbatim>\<open>int(datetime.now().timestamp())\<close>\<close>
  path_exists :: "string list \<Rightarrow> bool"
  path_is_dir :: "string list \<Rightarrow> bool"
  path_iterdir :: "string list \<Rightarrow> error + string list"
    \<comment> \<open>the names of the entries of a directory\<close>
  path_glob_tmpl :: "string list \<Rightarrow> error + string list"
    \<comment> \<open>the names of the entries matching \<^verbatim>\<open>*.tmpl\<close>\<close>
  path_read_text :: "string list \<Rightarrow> error + string"
  vcs_create_branch :: "string \<Rightarrow> string \<Rightarrow> string \<Rightarrow> error option"
    \<comment> \<open>the exception the call raises, if any\<close>
  vcs_commit_files :: "string \<Rightarrow> string \<Rightarrow> (string \<times> string) list \<Rightarrow> string \<Rightarrow> error option"
  vcs_create_pull_request ::
    "string \<Rightarrow> string \<Rightarrow> string \<Rightarrow> string \<Rightarrow> string \<Rightarrow> string list \<Rightarrow> error + pr_result"

section \<open>Python dictionaries and numbers\<close>

definition getitem :: "string \<Rightarrow> 'a option \<Rightarrow> error + 'a" where
  \<comment> \<open>\<^verbatim>\<open>d[key]\<close>, given the entry of \<^verbatim>\<open>key\<close> (\<open>None\<close> when the key is absent)\<close>
  "getitem key entry = (case entry of None \<Rightarrow> Inl (KeyError key) | Some v \<Rightarrow> Inr v)"

definition get_or :: "'a \<Rightarrow> 'a option \<Rightarrow> 'a" where
  \<comment> \<open>\<^verbatim>\<open>d.get(key, default)\<close>\<close>
  "get_or dflt entry = (case entry of None \<Rightarrow> dflt | Some v \<Rightarrow> v)"

fun dict_set :: "('k \<times> 'v) list \<Rightarrow> 'k \<Rightarrow> 'v \<Rightarrow> ('k \<times> 'v) list" where
  \<comment> \<open>\<^verbatim>\<open>d[k] = v\<close> on a dictionary kept in insertion order: a present key keeps its
      place and takes the new value, a new key goes to the end\<close>
  "dict_set [] k v = [(k, v)]"
| "dict_set ((k', v') # d) k v = (if k' = k then (k, v) # d else (k', v') # dict_set d k v)"

fun dict_of :: "('k \<times> 'v) list \<Rightarrow> ('k \<times> 'v) list \<Rightarrow> ('k \<times> 'v) list" where
  \<comment> \<open>the comprehension \<^verbatim>\<open>{k: v for ...}\<close>: the items are stored one after the other\<close>
  "dict_of d [] = d"
| "dict_of d ((k, v) # items) = dict_of (dict_set d k v) items"

function str_nat :: "nat \<Rightarrow> string" where
  \<comment> \<open>\<^verbatim>\<open>str(n)\<close> for \<open>n \<ge> 0\<close>\<close>
  "str_nat n =
     (if n < 10 then [ascii_digits ! n] else str_nat (n div 10) @ [ascii_digits ! (n mod 10)])"
  by pat_completeness auto
termination
  by (relation "measure id") auto

definition str_int :: "int \<Rightarrow> string" where
  "str_int i = (if i < 0 then ''-'' @ str_nat (nat (- i)) else str_nat (nat i))"

definition repr_str_list :: "string list \<Rightarrow> string" where
  \<comment> \<open>\<^verbatim>\<open>repr\<close> of a list of strings that need no escaping\<close>
  "repr_str_list xs = ''['' @ join '', '' (map (\<lambda>x. [CHR 0x27] @ x @ [CHR 0x27]) xs) @ '']''"

section \<open>Data model\<close>

text \<open>
  A Diff Plan is a dictionary read from JSON. The model keeps the keys the code reads;
  an entry is \<open>None\<close> when the key is absent, and a present value has the type the code
  uses it at (strings, a number, lists of strings, lists of dictionaries).
\<close>

record gap =
  gap_type :: "string option"
    \<comment> \<open>key \<^verbatim>\<open>type\<close>\<close>
  gap_priority :: "string option"
  gap_description :: "string option"
  gap_template :: "string option"

record patch =
  patch_file :: "string option"
  patch_content :: "string option"
  patch_action :: "string option"

record tech_stack =
  tech_language :: "string option"

record diff_plan =
  dp_repo :: "string option"
  dp_archetypes :: "string list option"
  dp_confidence :: "rat option"
  dp_tech_stack :: "tech_stack option"
  dp_gaps :: "gap list option"
  dp_patch_plan :: "patch list option"
  dp_scan_timestamp :: "string option"
  dp_diff_plan_id :: "string option"

record PRAuthorConfig =
  templates_path :: string
  default_branch :: string
  branch_prefix :: string
  pr_labels :: "string list"
  confidence_threshold :: rat
  auto_create_pr :: bool
  require_human_review :: bool

definition float_0_7 :: rat where
  \<comment> \<open>the number the float literal \<^verbatim>\<open>0.7\<close> denotes: the double nearest to 7/10\<close>
  "float_0_7 = 3152519739159347 / 4503599627370496"

definition default_config :: PRAuthorConfig where
  \<comment> \<open>the defaults of the dataclass, after \<^verbatim>\<open>__post_init__\<close>\<close>
  "default_config =
     \<lparr>templates_path = ''./references/templates'', default_branch = ''main'',
      branch_prefix = ''autopilot/observability'', pr_labels = [''autopilot'', ''observability''],
      confidence_threshold = float_0_7, auto_create_pr = True, require_human_review = True\<rparr>"

record GeneratedArtifact =
  file_path :: string
  content :: string
  action :: string
  template :: "string option"

record TemplateContext =
  service_name :: string
  service_urn :: string
  namespace :: string
  input_topic :: string
  output_topic :: string
  owner_team :: string
  consumer_group :: string
  schema_id :: string
  otel_version :: string
  timestamp :: string
  diff_plan_id :: string
  confidence :: rat
  archetypes :: "string list"
  language :: string

definition post_init :: "TemplateContext \<Rightarrow> TemplateContext" where
  \<comment> \<open>\<^verbatim>\<open>TemplateContext.__post_init__\<close>; \<^verbatim>\<open>archetypes\<close> is already a list here\<close>
  "post_init c =
     (if consumer_group c = [] then c\<lparr>consumer_group := service_name c @ ''-cg''\<rparr> else c)"

definition to_dict :: "env \<Rightarrow> TemplateContext \<Rightarrow> variables" where
  "to_dict env c = map_of [
     (''service_name'', PStr (service_name c)),
     (''service_urn'', PStr (service_urn c)),
     (''namespace'', PStr (namespace c)),
     (''input_topic'', PStr (input_topic c)),
     (''output_topic'', PStr (output_topic c)),
     (''owner_team'', PStr (owner_team c)),
     (''consumer_group'', PStr (consumer_group c)),
     (''schema_id'', PStr (schema_id c)),
     (''otel_version'', PStr (otel_version c)),
     (''timestamp'', PStr (timestamp c)),
     (''diff_plan_id'', PStr (diff_plan_id c)),
     (''confidence'', PFloat (confidence c)),
     (''archetypes'', PList (archetypes c)),
     (''language'', PStr (language c)),
     (''SERVICE_NAME'', PStr (service_name c)),
     (''SERVICE_URN'', PStr (service_urn c)),
     (''NAMESPACE'', PStr (namespace c)),
     (''INPUT_TOPIC'', PStr (input_topic c)),
     (''OUTPUT_TOPIC'', PStr (output_topic c)),
     (''OWNER_TEAM'', PStr (owner_team c)),
     (''CONSUMER_GROUP'', PStr (consumer_group c)),
     (''SCHEMA_ID'', PStr (schema_id c)),
     (''OTEL_VERSION'', PStr (otel_version c)),
     (''TIMESTAMP'', PStr (timestamp c)),
     (''DIFF_PLAN_ID'', PStr (diff_plan_id c)),
     (''CONFIDENCE'', PStr (fmt_pct env (confidence c))),
     (''ARCHETYPES'', PStr (join '', '' (archetypes c))),
     (''LANGUAGE'', PStr (language c)),
     (''PACKAGE_NAME'', PStr (replace_char CHR ''-'' ''.'' (service_name c))),
     (''CLASS_NAME'', PStr (concat (map capitalize (split_on CHR ''-'' (service_name c))))),
     (''MODULE_NAME'', PStr (replace_char CHR ''-'' ''_'' (service_name c)))]"

definition interpolate_ctx :: "env \<Rightarrow> TemplateContext \<Rightarrow> string \<Rightarrow> string" where
  \<comment> \<open>\<^verbatim>\<open>self._interpolate(template, context.to_dict())\<close>\<close>
  "interpolate_ctx env c text = interpolate (str_float env) (to_dict env c) text"

section \<open>Template store (template_engine.py)\<close>

definition get_builtin_template :: "string \<Rightarrow> string" where
  "get_builtin_template template_type =
     get_or [] (map_of [
       (''runbook'', builtin_runbook_template),
       (''lineage-spec'', builtin_lineage_template),
       (''contract-stub'', builtin_contract_template),
       (''telemetry-test-java'', builtin_java_test_template),
       (''telemetry-test-python'', builtin_python_test_template),
       (''telemetry-test-go'', builtin_go_test_template)] template_type)"

definition render_runbook :: "env \<Rightarrow> TemplateContext \<Rightarrow> string" where
  "render_runbook env c = interpolate_ctx env c (get_builtin_template ''runbook'')"

definition render_lineage_spec :: "env \<Rightarrow> TemplateContext \<Rightarrow> string" where
  "render_lineage_spec env c = interpolate_ctx env c (get_builtin_template ''lineage-spec'')"

definition render_contract_stub :: "env \<Rightarrow> TemplateContext \<Rightarrow> string" where
  "render_contract_stub env c = interpolate_ctx env c (get_builtin_template ''contract-stub'')"

definition render_telemetry_test :: "env \<Rightarrow> TemplateContext \<Rightarrow> string" where
  "render_telemetry_test env c =
     (let template_key = ''telemetry-test-'' @ language c;
          t = get_builtin_template template_key;
          t = (if t = [] then get_builtin_template ''telemetry-test-java'' else t)
      in interpolate_ctx env c t)"

definition rsplit1 :: "char \<Rightarrow> string \<Rightarrow> (string \<times> string) option" where
  \<comment> \<open>\<^verbatim>\<open>s.rsplit(sep, 1)\<close>: the two parts around the last separator, \<open>None\<close> when the
      result has one part only\<close>
  "rsplit1 sep s =
     (case dropWhile (\<lambda>c. c \<noteq> sep) (rev s) of
        [] \<Rightarrow> None
      | c # front \<Rightarrow> Some (rev front, rev (takeWhile (\<lambda>c. c \<noteq> sep) (rev s))))"

definition stem :: "string \<Rightarrow> string" where
  \<comment> \<open>\<^verbatim>\<open>Path.stem\<close> of a file name: the name without its last suffix; a leading or a
      trailing dot starts no suffix\<close>
  "stem name =
     (case rsplit1 CHR ''.'' name of
        None \<Rightarrow> name
      | Some (front, ext) \<Rightarrow> if front \<noteq> [] \<and> ext \<noteq> [] then front else name)"

fun find_template_in :: "env \<Rightarrow> string \<Rightarrow> string \<Rightarrow> string list \<Rightarrow> string list option" where
  \<comment> \<open>the inner loop of \<^verbatim>\<open>_find_template_dir\<close> over the entries of one language
      directory\<close>
  "find_template_in env template_name lang_dir [] = None"
| "find_template_in env template_name lang_dir (d # ds) =
     (if path_is_dir env [lang_dir, d] \<and> d = template_name then Some [lang_dir, d]
      else find_template_in env template_name lang_dir ds)"

fun find_template_direct :: "env \<Rightarrow> string \<Rightarrow> string list \<Rightarrow> error + string list option" where
  \<comment> \<open>the outer loop over the language directories\<close>
  "find_template_direct env template_name [] = Inr None"
| "find_template_direct env template_name (lang_dir # rest) =
     (if path_is_dir env [lang_dir] then
        (case path_iterdir env [lang_dir] of
           Inl e \<Rightarrow> Inl e
         | Inr entries \<Rightarrow>
             (case find_template_in env template_name lang_dir entries of
                Some p \<Rightarrow> Inr (Some p)
              | None \<Rightarrow> find_template_direct env template_name rest))
      else find_template_direct env template_name rest)"

definition find_template_dir :: "env \<Rightarrow> string \<Rightarrow> error + string list option" where
  "find_template_dir env template_name =
     (let lang_path =
            (case rsplit1 CHR ''-'' template_name of
               None \<Rightarrow> None
             | Some (base_name, lang) \<Rightarrow>
                 if path_exists env [lang, base_name] then Some [lang, base_name] else None)
      in case lang_path of
           Some p \<Rightarrow> Inr (Some p)
         | None \<Rightarrow>
             (case path_iterdir env [] of
                Inl e \<Rightarrow> Inl e
              | Inr lang_dirs \<Rightarrow>
                  (case find_template_direct env template_name lang_dirs of
                     Inl e \<Rightarrow> Inl e
                   | Inr (Some p) \<Rightarrow> Inr (Some p)
                   | Inr None \<Rightarrow>
                       if path_exists env [''common'', template_name]
                       then Inr (Some [''common'', template_name]) else Inr None)))"

definition get_output_path :: "string \<Rightarrow> string \<Rightarrow> TemplateContext \<Rightarrow> string" where
  "get_output_path template_name output_name c =
     (let lang = language c;
          source_dirs = map_of [
            (''java'', ''src/main/java/com/company/'' @ replace_char CHR ''-'' ''/'' (service_name c)),
            (''python'', ''src/'' @ replace_char CHR ''-'' ''_'' (service_name c)),
            (''go'', ''internal/observability'')]
      in if endswith output_name ''.java'' \<or> endswith output_name ''.py''
            \<or> endswith output_name ''.go''
         then get_or ''src'' (source_dirs lang) @ ''/'' @ output_name
         else if endswith output_name ''.yaml'' \<or> endswith output_name ''.yml'' then
           (if contains ''lineage'' template_name then ''lineage/'' @ output_name
            else if contains ''contract'' template_name then ''contracts/'' @ output_name
            else ''src/main/resources/'' @ output_name)
         else if endswith output_name ''.xml'' then output_name
         else if endswith output_name ''.mod'' then output_name
         else output_name)"

fun render_files ::
  "env \<Rightarrow> string \<Rightarrow> TemplateContext \<Rightarrow> string list \<Rightarrow> string list \<Rightarrow>
     (string \<times> string) list \<Rightarrow> error + (string \<times> string) list" where
  \<comment> \<open>the loop of \<^verbatim>\<open>render_template\<close> over the template files, filling
      \<^verbatim>\<open>rendered_files\<close>\<close>
  "render_files env template_name c template_dir [] rendered_files = Inr rendered_files"
| "render_files env template_name c template_dir (template_file # rest) rendered_files =
     (let output_name = interpolate_ctx env c (stem template_file)
      in case path_read_text env (template_dir @ [template_file]) of
           Inl e \<Rightarrow> Inl e
         | Inr template_content \<Rightarrow>
             (let rendered_content = interpolate_ctx env c template_content;
                  output_path = get_output_path template_name output_name c
              in render_files env template_name c template_dir rest
                   (dict_set rendered_files output_path rendered_content)))"

definition render_template ::
  "env \<Rightarrow> string \<Rightarrow> TemplateContext \<Rightarrow> error + (string \<times> string) list" where
  "render_template env template_name c =
     (case find_template_dir env template_name of
        Inl e \<Rightarrow> Inl e
      | Inr None \<Rightarrow> Inl (ValueError (''Template not found: '' @ template_name))
      | Inr (Some template_dir) \<Rightarrow>
          (case path_glob_tmpl env template_dir of
             Inl e \<Rightarrow> Inl e
           | Inr template_files \<Rightarrow>
               render_files env template_name c template_dir template_files []))"

section \<open>The PR author agent (generate_pr.py)\<close>

subsection \<open>Validation and context\<close>

definition required_fields :: "diff_plan \<Rightarrow> (string \<times> bool) list" where
  \<comment> \<open>the required keys, in the order of the source, each with \<^verbatim>\<open>f in diff_plan\<close>\<close>
  "required_fields p =
     [(''repo'', dp_repo p \<noteq> None), (''archetypes'', dp_archetypes p \<noteq> None),
      (''confidence'', dp_confidence p \<noteq> None), (''tech_stack'', dp_tech_stack p \<noteq> None),
      (''gaps'', dp_gaps p \<noteq> None)]"

definition validate_diff_plan :: "diff_plan \<Rightarrow> error + unit" where
  "validate_diff_plan p =
     (let missing = map fst (filter (\<lambda>(f, present). \<not> present) (required_fields p))
      in if missing \<noteq> [] then
           Inl (ValueError (''Invalid Diff Plan: missing fields '' @ repr_str_list missing))
         else
           (case getitem ''archetypes'' (dp_archetypes p) of
              Inl e \<Rightarrow> Inl e
            | Inr a \<Rightarrow>
                if a = [] then Inl (ValueError ''Diff Plan has no archetypes detected'')
                else Inr ()))"

definition get_owner_team :: "string \<Rightarrow> string" where
  "get_owner_team repo_url = ''platform-team''"

definition get_otel_version :: "string \<Rightarrow> string" where
  "get_otel_version lang =
     get_or ''1.32.0''
       (map_of [(''java'', ''1.32.0''), (''python'', ''1.22.0''), (''go'', ''1.24.0'')] lang)"

definition plan_gaps :: "diff_plan \<Rightarrow> gap list" where
  \<comment> \<open>\<^verbatim>\<open>diff_plan.get("gaps", [])\<close>\<close>
  "plan_gaps p = get_or [] (dp_gaps p)"

definition kafka_gap :: "gap \<Rightarrow> bool" where
  \<comment> \<open>\<^verbatim>\<open>"kafka" in gap.get("template", "").lower()\<close>\<close>
  "kafka_gap g = contains ''kafka'' (str_lower (get_or [] (gap_template g)))"

definition build_template_context :: "env \<Rightarrow> diff_plan \<Rightarrow> string \<Rightarrow> error + TemplateContext" where
  "build_template_context env p repo_url =
     (case getitem ''repo'' (dp_repo p) of
        Inl e \<Rightarrow> Inl e
      | Inr repo_name \<Rightarrow>
          (let tech = get_or \<lparr>tech_language = None\<rparr> (dp_tech_stack p);
               found = list_ex kafka_gap (plan_gaps p);
               input_topic = (if found then repo_name @ ''_input'' else []);
               output_topic = (if found then repo_name @ ''_output'' else [])
           in case getitem ''confidence'' (dp_confidence p) of
                Inl e \<Rightarrow> Inl e
              | Inr conf \<Rightarrow>
                  (case getitem ''archetypes'' (dp_archetypes p) of
                     Inl e \<Rightarrow> Inl e
                   | Inr archs \<Rightarrow>
                       Inr (post_init
                         \<lparr>service_name = repo_name,
                          service_urn = ''urn:svc:prod:'' @ repo_name,
                          namespace =
                            (if contains ''-'' repo_name
                             then (case split_on CHR ''-'' repo_name of [] \<Rightarrow> [] | w # ws \<Rightarrow> w)
                             else ''default''),
                          input_topic = input_topic,
                          output_topic = output_topic,
                          owner_team = get_owner_team repo_url,
                          consumer_group = repo_name @ ''-cg'',
                          schema_id = repo_name @ ''.v1'',
                          otel_version = get_otel_version (get_or ''java'' (tech_language tech)),
                          timestamp = utc_now_isoformat env,
                          diff_plan_id = get_or (''dp-'' @ repo_name) (dp_diff_plan_id p),
                          confidence = conf,
                          archetypes = archs,
                          language = get_or ''java'' (tech_language tech)\<rparr>))))"

subsection \<open>Artifact generation\<close>

definition gap_artifacts ::
  "env \<Rightarrow> TemplateContext \<Rightarrow> gap \<Rightarrow> GeneratedArtifact list \<times> event list" where
  \<comment> \<open>one round of the loop over the gaps: the artifacts the gap adds and what is printed;
      an exception of \<^verbatim>\<open>render_template\<close> is caught and reported\<close>
  "gap_artifacts env c g =
     (let template_name = get_or [] (gap_template g)
      in if template_name = [] then ([], [])
         else
           (case render_template env template_name c of
              Inr rendered_files \<Rightarrow>
                (map (\<lambda>(path, text).
                        \<lparr>file_path = path, content = text, action = ''create'',
                         template = Some template_name\<rparr>) rendered_files,
                 [])
            | Inl e \<Rightarrow>
                ([], [Print (''  Warning: Failed to render template '' @ template_name @ '': ''
                              @ str_error e)])))"

fun gaps_artifacts ::
  "env \<Rightarrow> TemplateContext \<Rightarrow> gap list \<Rightarrow> GeneratedArtifact list \<times> event list" where
  "gaps_artifacts env c [] = ([], [])"
| "gaps_artifacts env c (g # gs) =
     (case gap_artifacts env c g of
        (arts, out) \<Rightarrow>
          (case gaps_artifacts env c gs of (arts', out') \<Rightarrow> (arts @ arts', out @ out')))"

definition patch_artifact :: "patch \<Rightarrow> error + GeneratedArtifact" where
  "patch_artifact pt =
     (case getitem ''file'' (patch_file pt) of
        Inl e \<Rightarrow> Inl e
      | Inr f \<Rightarrow>
          (case getitem ''action'' (patch_action pt) of
             Inl e \<Rightarrow> Inl e
           | Inr a \<Rightarrow>
               Inr \<lparr>file_path = f, content = get_or [] (patch_content pt), action = a,
                    template = None\<rparr>))"

fun patch_artifacts :: "patch list \<Rightarrow> error + GeneratedArtifact list" where
  "patch_artifacts [] = Inr []"
| "patch_artifacts (pt # pts) =
     (case patch_artifact pt of
        Inl e \<Rightarrow> Inl e
      | Inr a \<Rightarrow> (case patch_artifacts pts of Inl e \<Rightarrow> Inl e | Inr as \<Rightarrow> Inr (a # as)))"

fun gap_types :: "gap list \<Rightarrow> error + string list" where
  \<comment> \<open>the comprehension \<^verbatim>\<open>[g["type"] for g in gaps]\<close>\<close>
  "gap_types [] = Inr []"
| "gap_types (g # gs) =
     (case getitem ''type'' (gap_type g) of
        Inl e \<Rightarrow> Inl e
      | Inr t \<Rightarrow> (case gap_types gs of Inl e \<Rightarrow> Inl e | Inr ts \<Rightarrow> Inr (t # ts)))"

definition get_test_path :: "TemplateContext \<Rightarrow> string" where
  "get_test_path c =
     (let lang = language c;
          test_paths = map_of [
            (''java'',
               ''src/test/java/com/company/'' @ replace_char CHR ''-'' ''/'' (service_name c)
               @ ''/otel/'' @ title (replace_char CHR ''-'' [] (service_name c))
               @ ''OtelInterceptorTest.java''),
            (''python'',
               ''tests/test_otel_'' @ replace_char CHR ''-'' ''_'' (service_name c) @ ''.py''),
            (''go'', ''internal/observability/otel_test.go'')]
      in get_or (''tests/test_telemetry.'' @ lang) (test_paths lang))"

definition runbook_artifacts :: "env \<Rightarrow> TemplateContext \<Rightarrow> GeneratedArtifact list \<Rightarrow> GeneratedArtifact list" where
  \<comment> \<open>"Always generate runbook if missing"\<close>
  "runbook_artifacts env c artifacts =
     (if \<not> list_ex (\<lambda>a. file_path a = ''RUNBOOK.md'') artifacts then
        [\<lparr>file_path = ''RUNBOOK.md'', content = render_runbook env c, action = ''create'',
          template = Some ''runbook''\<rparr>]
      else [])"

definition lineage_artifacts :: "env \<Rightarrow> TemplateContext \<Rightarrow> string list \<Rightarrow> GeneratedArtifact list" where
  "lineage_artifacts env c types =
     (if ''missing_lineage_spec'' \<in> set types then
        [\<lparr>file_path = ''lineage/'' @ service_name c @ ''.yaml'',
          content = render_lineage_spec env c, action = ''create'',
          template = Some ''lineage-spec''\<rparr>]
      else [])"

definition contract_artifacts :: "env \<Rightarrow> TemplateContext \<Rightarrow> string list \<Rightarrow> GeneratedArtifact list" where
  "contract_artifacts env c types =
     (if ''missing_contract'' \<in> set types then
        [\<lparr>file_path = ''contracts/'' @ service_name c @ ''.yaml'',
          content = render_contract_stub env c, action = ''create'',
          template = Some ''contract-stub''\<rparr>]
      else [])"

definition telemetry_artifacts :: "env \<Rightarrow> TemplateContext \<Rightarrow> string list \<Rightarrow> GeneratedArtifact list" where
  "telemetry_artifacts env c types =
     (let instrumentation_gaps =
            filter (\<lambda>t. t = ''missing_otel'' \<or> t = ''missing_correlation'') types
      in if instrumentation_gaps \<noteq> [] then
           [\<lparr>file_path = get_test_path c, content = render_telemetry_test env c,
             action = ''create'', template = Some ''telemetry-test''\<rparr>]
         else [])"

definition generate_artifacts ::
  "env \<Rightarrow> diff_plan \<Rightarrow> TemplateContext \<Rightarrow> GeneratedArtifact list io" where
  "generate_artifacts env p c =
     (case gaps_artifacts env c (plan_gaps p) of
        (from_gaps, out) \<Rightarrow>
          (case patch_artifacts (get_or [] (dp_patch_plan p)) of
             Inl e \<Rightarrow> (Inl e, out)
           | Inr from_patches \<Rightarrow>
               (let artifacts = from_gaps @ from_patches;
                    artifacts = artifacts @ runbook_artifacts env c artifacts
                in case gap_types (plan_gaps p) of
                     Inl e \<Rightarrow> (Inl e, out)
                   | Inr types \<Rightarrow>
                       (Inr (artifacts @ lineage_artifacts env c types
                               @ contract_artifacts env c types
                               @ telemetry_artifacts env c types),
                        out))))"

subsection \<open>Description\<close>

fun gap_lines :: "gap list \<Rightarrow> error + string list" where
  \<comment> \<open>the lines \<^verbatim>\<open>f"- [{gap['priority']}] {gap['type']}: {gap['description']}"\<close>\<close>
  "gap_lines [] = Inr []"
| "gap_lines (g # gs) =
     (case getitem ''priority'' (gap_priority g) of
        Inl e \<Rightarrow> Inl e
      | Inr pr \<Rightarrow>
          (case getitem ''type'' (gap_type g) of
             Inl e \<Rightarrow> Inl e
           | Inr ty \<Rightarrow>
               (case getitem ''description'' (gap_description g) of
                  Inl e \<Rightarrow> Inl e
                | Inr de \<Rightarrow>
                    (case gap_lines gs of
                       Inl e \<Rightarrow> Inl e
                     | Inr ls \<Rightarrow> Inr ((''- ['' @ pr @ ''] '' @ ty @ '': '' @ de) # ls)))))"

definition generate_pr_description ::
  "env \<Rightarrow> diff_plan \<Rightarrow> GeneratedArtifact list \<Rightarrow> TemplateContext \<Rightarrow> error + string" where
  "generate_pr_description env p artifacts c =
     (let changes_list =
            join ''\<newline>'' (map (\<lambda>a. ''- `'' @ file_path a @ ''` ('' @ action a @ '')'') artifacts)
      in case gap_lines (plan_gaps p) of
           Inl e \<Rightarrow> Inl e
         | Inr ls \<Rightarrow>
             (let gaps_list = join ''\<newline>'' ls;
                  files_list =
                    join ''\<newline>''
                      (map (\<lambda>a. ''| `'' @ file_path a @ ''` | '' @ action a @ '' | ''
                                 @ (case template a of
                                      None \<Rightarrow> ''patch''
                                    | Some t \<Rightarrow> if t = [] then ''patch'' else t)
                                 @ '' |'') artifacts)
              in Inr (text_lines [
                   ''## Autopilot: Observability Instrumentation'',
                   '''',
                   ''This PR was generated by the Instrumentation Autopilot to add observability'',
                   ''instrumentation to this repository based on Scout Agent analysis.'',
                   '''',
                   ''### Summary'',
                   ''- **Archetypes Detected**: '' @ join '', '' (archetypes c),
                   ''- **Confidence Score**: '' @ fmt_pct env (confidence c),
                   ''- **Diff Plan ID**: '' @ diff_plan_id c,
                   '''',
                   ''### Changes'',
                   changes_list,
                   '''',
                   ''### Gaps Addressed'',
                   gaps_list,
                   '''',
                   ''### Files Modified'',
                   ''| File | Action | Template |'',
                   ''|------|--------|----------|'',
                   files_list,
                   '''',
                   ''### Verification Checklist'',
                   ''- [ ] Code review approved by domain expert'',
                   ''- [ ] Unit tests passing'',
                   ''- [ ] Lineage spec reviewed for accuracy'',
                   ''- [ ] Contract SLOs appropriate for data tier'',
                   ''- [ ] RUNBOOK.md reviewed for operational accuracy'',
                   '''',
                   ''### Next Steps'',
                   ''After merge, the **Telemetry Validator** will automatically verify signals in staging.'',
                   ''Gate 1 checks will run as part of this PR's CI pipeline.'',
                   '''',
                   ''### Need Help?'',
                   ''- [Observability Runbook](./RUNBOOK.md)'',
                   ''- [Instrumentation Autopilot Docs](https://docs.internal/autopilot)'',
                   ''- Contact: #observability-support'',
                   '''',
                   ''---'',
                   ''*Generated by Instrumentation Autopilot v1.0*'',
                   ''*Scout Agent Scan: '' @ get_or ''N/A'' (dp_scan_timestamp p) @ ''*'',
                   ''*PR Author: '' @ timestamp c @ ''*''])))"

subsection \<open>Publishing\<close>

record published =
  pub_diff_plan_id :: "string option"
  pr_number :: "int option"
  pr_url :: "string option"
  branch :: string
  files_changed :: nat
  pub_archetypes :: "string list"
  gaps_addressed :: "string list"

datatype result =
    Skipped string "string option"
      \<comment> \<open>status \<^verbatim>\<open>skipped\<close>: reason, plan id\<close>
  | DryRun "string option" "(string \<times> string) list" string
      \<comment> \<open>status \<^verbatim>\<open>dry_run\<close>: plan id, the (path, action) pairs, description\<close>
  | Published published
      \<comment> \<open>status \<^verbatim>\<open>success\<close>\<close>
  | ArtifactsGenerated "string option" nat
      \<comment> \<open>status \<^verbatim>\<open>artifacts_generated\<close>: plan id, artifact count\<close>

definition files_to_commit :: "GeneratedArtifact list \<Rightarrow> (string \<times> string) list" where
  \<comment> \<open>\<^verbatim>\<open>{a.file_path: a.content for a in artifacts}\<close>\<close>
  "files_to_commit artifacts = dict_of [] (map (\<lambda>a. (file_path a, content a)) artifacts)"

definition create_pull_request ::
  "env \<Rightarrow> PRAuthorConfig \<Rightarrow> string \<Rightarrow> diff_plan \<Rightarrow> GeneratedArtifact list \<Rightarrow> string \<Rightarrow>
     result io" where
  "create_pull_request env config repo_url p artifacts pr_description =
     bind_io (lift_io (getitem ''repo'' (dp_repo p))) (\<lambda>repo_name.
     let branch_name =
           branch_prefix config @ ''-'' @ repo_name @ ''-'' @ str_int (now_timestamp env) in
     bind_io (print_io (''  Creating branch: '' @ branch_name)) (\<lambda>_.
     bind_io (Inr (), [CreateBranch repo_url branch_name (default_branch config)]) (\<lambda>_.
     bind_io (lift_io (case vcs_create_branch env repo_url branch_name (default_branch config) of
                         Some e \<Rightarrow> Inl e | None \<Rightarrow> Inr ())) (\<lambda>_.
     let files = files_to_commit artifacts in
     bind_io (print_io (''  Committing '' @ str_nat (length files) @ '' files...'')) (\<lambda>_.
     bind_io (lift_io (gap_types (plan_gaps p))) (\<lambda>types.
     bind_io (lift_io (getitem ''confidence'' (dp_confidence p))) (\<lambda>conf.
     let commit_message = text_lines [
           ''feat(observability): Add instrumentation via Autopilot'',
           '''',
           ''Addresses gaps detected by Scout Agent:'',
           join ''\<newline>'' (map (\<lambda>t. ''- '' @ t) types),
           '''',
           ''Diff Plan ID: '' @ get_or ''N/A'' (dp_diff_plan_id p),
           ''Confidence: '' @ fmt_pct env conf] in
     bind_io (Inr (), [CommitFiles repo_url branch_name files commit_message]) (\<lambda>_.
     bind_io (lift_io (case vcs_commit_files env repo_url branch_name files commit_message of
                         Some e \<Rightarrow> Inl e | None \<Rightarrow> Inr ())) (\<lambda>_.
     bind_io (lift_io (getitem ''archetypes'' (dp_archetypes p))) (\<lambda>archs.
     let archetypes_labels = map (\<lambda>a. ''archetype:'' @ a) (take 2 archs);
         labels = pr_labels config @ archetypes_labels;
         pr_title = ''feat(observability): Add '' @ join '', '' (take 2 archs)
                      @ '' instrumentation'' in
     bind_io (print_io (''  Creating PR: '' @ pr_title)) (\<lambda>_.
     bind_io (Inr (), [CreatePullRequest repo_url pr_title pr_description branch_name
                         (default_branch config) labels]) (\<lambda>_.
     bind_io (lift_io (vcs_create_pull_request env repo_url pr_title pr_description branch_name
                         (default_branch config) labels)) (\<lambda>pr.
     bind_io (print_io (''  PR created: '' @ get_or ''N/A'' (pr_result_url pr))) (\<lambda>_.
     return_io (Published
       \<lparr>pub_diff_plan_id = dp_diff_plan_id p,
        pr_number = pr_result_number pr,
        pr_url = pr_result_url pr,
        branch = branch_name,
        files_changed = length artifacts,
        pub_archetypes = archs,
        gaps_addressed = types\<rparr>)))))))))))))))"

subsection \<open>Orchestrator\<close>

definition process_diff_plan ::
  "env \<Rightarrow> PRAuthorConfig \<Rightarrow> diff_plan \<Rightarrow> string \<Rightarrow> bool \<Rightarrow> result io" where
  "process_diff_plan env config p repo_url dry_run =
     bind_io (lift_io (validate_diff_plan p)) (\<lambda>_.
     let conf = get_or 0 (dp_confidence p) in
     if conf < confidence_threshold config then
       return_io (Skipped
         (''Confidence '' @ fmt_2f env conf @ '' below threshold ''
            @ str_float env (confidence_threshold config))
         (dp_diff_plan_id p))
     else
     bind_io (lift_io (getitem ''repo'' (dp_repo p))) (\<lambda>repo_name.
     bind_io (print_io (''Processing Diff Plan for: '' @ repo_name)) (\<lambda>_.
     bind_io (lift_io (getitem ''archetypes'' (dp_archetypes p))) (\<lambda>archs.
     bind_io (print_io (''  Archetypes: '' @ join '', '' archs)) (\<lambda>_.
     bind_io (print_io (''  Confidence: '' @ fmt_pct env conf)) (\<lambda>_.
     bind_io (print_io (''  Gaps: '' @ str_nat (length (plan_gaps p)))) (\<lambda>_.
     bind_io (lift_io (build_template_context env p repo_url)) (\<lambda>c.
     bind_io (print_io ''\<newline>Generating artifacts...'') (\<lambda>_.
     bind_io (generate_artifacts env p c) (\<lambda>artifacts.
     bind_io (print_io (''  Generated '' @ str_nat (length artifacts) @ '' files'')) (\<lambda>_.
     bind_io (lift_io (generate_pr_description env p artifacts c)) (\<lambda>pr_description.
     if dry_run then
       return_io (DryRun (dp_diff_plan_id p)
         (map (\<lambda>a. (file_path a, action a)) artifacts) pr_description)
     else if auto_create_pr config then
       bind_io (print_io ''\<newline>Creating Pull Request...'') (\<lambda>_.
       create_pull_request env config repo_url p artifacts pr_description)
     else
       return_io (ArtifactsGenerated (dp_diff_plan_id p) (length artifacts))))))))))))))"

subsection \<open>The files of a run\<close>

definition commits :: "event list \<Rightarrow> (string \<times> string) list list" where
  \<comment> \<open>the file sets handed to \<^verbatim>\<open>commit_files\<close>, in the order of the calls\<close>
  "commits evs = concat (map (\<lambda>ev. case ev of CommitFiles u b files m \<Rightarrow> [files] | _ \<Rightarrow> []) evs)"

section \<open>Example inputs\<close>

definition float_0_87 :: rat where
  \<comment> \<open>the number the float literal \<^verbatim>\<open>0.87\<close> denotes\<close>
  "float_0_87 = 7836263351624663 / 9007199254740992"

text \<open>
  An environment for the examples: it prints the numbers of the examples as Python does,
  has no template directory (listing \<^verbatim>\<open>templates_path\<close> raises), and its
  version-control client accepts every call.
\<close>

definition example_env :: env where
  "example_env =
     \<lparr>str_float = (\<lambda>x. get_or ''nan''
         (map_of [(float_0_7, ''0.7''), (float_0_87, ''0.87''), (1 / 2, ''0.5'')] x)),
      fmt_2f = (\<lambda>x. get_or ''nan''
         (map_of [(float_0_7, ''0.70''), (float_0_87, ''0.87''), (1 / 2, ''0.50'')] x)),
      fmt_pct = (\<lambda>x. get_or ''nan%''
         (map_of [(float_0_7, ''70%''), (float_0_87, ''87%''), (1 / 2, ''50%'')] x)),
      utc_now_isoformat = ''2026-01-04T10:30:00+00:00'',
      now_timestamp = 1767522600,
      path_exists = (\<lambda>p. False),
      path_is_dir = (\<lambda>p. False),
      path_iterdir = (\<lambda>p. Inl (OtherError ''[Errno 2] No such file or directory'')),
      path_glob_tmpl = (\<lambda>p. Inr []),
      path_read_text = (\<lambda>p. Inl (OtherError ''[Errno 2] No such file or directory'')),
      vcs_create_branch = (\<lambda>repo_url branch_name base_branch. None),
      vcs_commit_files = (\<lambda>repo_url branch_name files message. None),
      vcs_create_pull_request = (\<lambda>repo_url title body head_branch base_branch labels.
         Inr \<lparr>pr_result_number = Some 42,
              pr_result_url = Some ''https://github.com/company/orders-enricher/pull/42''\<rparr>)\<rparr>"

definition example_url :: string where
  "example_url = ''https://github.com/company/orders-enricher''"

definition otel_gap :: gap where
  "otel_gap =
     \<lparr>gap_type = Some ''missing_otel'', gap_priority = Some ''P1'',
      gap_description = Some ''no spans'', gap_template = Some ''kafka-consumer-otel-java''\<rparr>"

definition example_plan :: diff_plan where
  \<comment> \<open>the example plan of the specification\<close>
  "example_plan =
     \<lparr>dp_repo = Some ''orders-enricher'', dp_archetypes = Some [''kafka-microservice''],
      dp_confidence = Some float_0_87, dp_tech_stack = Some \<lparr>tech_language = Some ''java''\<rparr>,
      dp_gaps = Some [otel_gap], dp_patch_plan = None, dp_scan_timestamp = None,
      dp_diff_plan_id = None\<rparr>"

definition example_ctx :: TemplateContext where
  \<comment> \<open>the context of the example plan in the example environment\<close>
  "example_ctx =
     \<lparr>service_name = ''orders-enricher'', service_urn = ''urn:svc:prod:orders-enricher'',
      namespace = ''orders'', input_topic = ''orders-enricher_input'',
      output_topic = ''orders-enricher_output'', owner_team = ''platform-team'',
      consumer_group = ''orders-enricher-cg'', schema_id = ''orders-enricher.v1'',
      otel_version = ''1.32.0'', timestamp = ''2026-01-04T10:30:00+00:00'',
      diff_plan_id = ''dp-orders-enricher'', confidence = float_0_87,
      archetypes = [''kafka-microservice''], language = ''java''\<rparr>"

definition manual_config :: PRAuthorConfig where
  \<comment> \<open>\<^verbatim>\<open>PRAuthorConfig(auto_create_pr=False)\<close>\<close>
  "manual_config = default_config\<lparr>auto_create_pr := False\<rparr>"

definition untyped_gap :: gap where
  \<comment> \<open>a gap entry without the key \<^verbatim>\<open>type\<close>\<close>
  "untyped_gap =
     \<lparr>gap_type = None, gap_priority = Some ''P2'', gap_description = Some ''no lineage'',
      gap_template = None\<rparr>"

definition untyped_plan :: diff_plan where
  "untyped_plan = example_plan\<lparr>dp_gaps := Some [untyped_gap]\<rparr>"

definition untyped_low_plan :: diff_plan where
  \<comment> \<open>the same plan with confidence \<^verbatim>\<open>0.5\<close>\<close>
  "untyped_low_plan = untyped_plan\<lparr>dp_confidence := Some (1 / 2)\<rparr>"

definition dup_plan :: diff_plan where
  \<comment> \<open>the example plan with two patch instructions for the same file\<close>
  "dup_plan = example_plan\<lparr>dp_patch_plan := Some
     [\<lparr>patch_file = Some ''README.md'', patch_content = Some ''first'',
       patch_action = Some ''create''\<rparr>,
      \<lparr>patch_file = Some ''README.md'', patch_content = Some ''second'',
       patch_action = Some ''update''\<rparr>]\<rparr>"

definition empty_templates_env :: env where
  \<comment> \<open>as \<open>example_env\<close>, with a template directory that exists and is empty\<close>
  "empty_templates_env = example_env\<lparr>path_iterdir := (\<lambda>p. Inr [])\<rparr>"

definition lineage_gap :: gap where
  "lineage_gap =
     \<lparr>gap_type = Some ''missing_lineage_spec'', gap_priority = Some ''P2'',
      gap_description = Some ''no lineage spec'', gap_template = None\<rparr>"

definition contract_gap :: gap where
  "contract_gap =
     \<lparr>gap_type = Some ''missing_contract'', gap_priority = Some ''P2'',
      gap_description = Some ''no contract'', gap_template = None\<rparr>"

definition three_gaps_plan :: diff_plan where
  "three_gaps_plan = example_plan\<lparr>dp_gaps := Some [lineage_gap, otel_gap, contract_gap]\<rparr>"

definition lineage_patch_plan :: diff_plan where
  \<comment> \<open>the example plan with a patch instruction for the lineage file of the service\<close>
  "lineage_patch_plan = example_plan\<lparr>dp_patch_plan := Some
     [\<lparr>patch_file = Some ''lineage/orders-enricher.yaml'', patch_content = Some ''spec'',
       patch_action = Some ''update''\<rparr>]\<rparr>"

definition failing_untyped_plan :: diff_plan where
  \<comment> \<open>a gap whose template is not there, followed by a gap without \<^verbatim>\<open>type\<close>\<close>
  "failing_untyped_plan = example_plan\<lparr>dp_gaps := Some [otel_gap, untyped_gap]\<rparr>"
section \<open>Properties of the interpolation engine\<close>

lemma interpolate_no_placeholder:
  "\<not> has_placeholder s \<Longrightarrow> interpolate f v s = s"
proof (induction s)
  case Nil
  show ?case by simp
next
  case (Cons c cs)
  from Cons.prems have "match_var (c # cs) = None"
    by (cases "match_var (c # cs)") auto
  moreover from Cons.prems have "\<not> has_placeholder cs"
    by simp
  ultimately show ?case
    using Cons.IH by simp
qed

lemma is_word_special [simp]:
  "\<not> is_word CHR ''$''" "\<not> is_word CHR ''}''" "\<not> is_word CHR ''{''"
  by (simp_all add: is_word_def ascii_lower_def ascii_upper_def ascii_digits_def)

lemma word_span:
  "\<forall>c\<in>set n. is_word c \<Longrightarrow> \<not> is_word x \<Longrightarrow>
     takeWhile is_word (n @ x # t) = n \<and> dropWhile is_word (n @ x # t) = x # t"
  by (induction n) auto

lemma match_var_placeholder:
  assumes "name \<noteq> []" and "\<forall>c\<in>set name. is_word c"
  shows "match_var (placeholder name @ t) = Some (name, t)"
  using assms word_span [of name "CHR ''}''" t]
  by (simp add: match_var_def placeholder_def)

lemma match_var_Some_iff:
  "match_var s = Some (name, rest) \<longleftrightarrow>
     (s = placeholder name @ rest \<and> name \<noteq> [] \<and> (\<forall>c\<in>set name. is_word c))"
proof
  assume m: "match_var s = Some (name, rest)"
  then obtain r where s: "s = CHR ''$'' # CHR ''{'' # r"
    and d: "dropWhile is_word r = CHR ''}'' # rest"
    and n: "takeWhile is_word r = name" "name \<noteq> []"
    by (auto simp: match_var_def split: list.splits if_splits)
  have "r = takeWhile is_word r @ dropWhile is_word r"
    by simp
  with d n have "r = name @ CHR ''}'' # rest"
    by simp
  moreover have "\<forall>c\<in>set name. is_word c"
    using n(1) by (auto dest: set_takeWhileD)
  ultimately show "s = placeholder name @ rest \<and> name \<noteq> [] \<and> (\<forall>c\<in>set name. is_word c)"
    using s n(2) by (simp add: placeholder_def)
next
  assume "s = placeholder name @ rest \<and> name \<noteq> [] \<and> (\<forall>c\<in>set name. is_word c)"
  then show "match_var s = Some (name, rest)"
    by (simp add: match_var_placeholder)
qed

lemma match_var_append_Some:
  assumes "match_var s = Some (name, rest)"
  shows "match_var (s @ t) = Some (name, rest @ t)"
  using assms by (simp add: match_var_Some_iff)

lemma match_var_append_None:
  assumes none: "match_var pre = None" and pre: "pre \<noteq> []"
  shows "match_var (pre @ CHR ''$'' # t) = None"
proof (rule ccontr)
  assume "match_var (pre @ CHR ''$'' # t) \<noteq> None"
  then obtain name rest where "match_var (pre @ CHR ''$'' # t) = Some (name, rest)"
    by auto
  then have eq: "pre @ CHR ''$'' # t = placeholder name @ rest"
    and name: "name \<noteq> []" "\<forall>c\<in>set name. is_word c"
    by (simp_all add: match_var_Some_iff)
  from eq consider (long) us where "pre = placeholder name @ us"
    | (short) us where "pre @ us = placeholder name" "CHR ''$'' # t = us @ rest"
    by (auto simp: append_eq_append_conv2)
  then show False
  proof cases
    case long
    with name have "match_var pre = Some (name, us)"
      by (simp add: match_var_placeholder)
    with none show False by simp
  next
    case short
    show False
    proof (cases us)
      case Nil
      with short name have "match_var pre = Some (name, [])"
        using match_var_placeholder [of name "[]"] by simp
      with none show False by simp
    next
      case (Cons u us')
      with short have u: "u = CHR ''$''" by simp
      from pre obtain p pre' where "pre = p # pre'"
        by (cases pre) auto
      with short(1) Cons u have "CHR ''$'' \<in> set (tl (placeholder name))"
        by (metis append_Cons in_set_conv_decomp list.sel(3))
      then show False
        using name(2) by (auto simp: placeholder_def)
    qed
  qed
qed

lemma interpolate_append:
  "interpolate f v (pre @ CHR ''$'' # t) = interpolate f v pre @ interpolate f v (CHR ''$'' # t)"
proof (induction f v pre rule: interpolate.induct)
  case (1 f v)
  show ?case by simp
next
  case (2 f v c cs)
  show ?case
  proof (cases "match_var (c # cs)")
    case None
    then have "match_var ((c # cs) @ CHR ''$'' # t) = None"
      by (rule match_var_append_None) simp
    with None 2 show ?thesis by simp
  next
    case (Some p)
    obtain name rest where p: "p = (name, rest)"
      by (cases p)
    with Some have "match_var (c # cs) = Some (name, rest)"
      by simp
    then have "match_var ((c # cs) @ CHR ''$'' # t) = Some (name, rest @ CHR ''$'' # t)"
      by (rule match_var_append_Some)
    with Some p 2 show ?thesis by simp
  qed
qed

lemma interpolate_placeholder:
  assumes "name \<noteq> []" and "\<forall>c\<in>set name. is_word c"
  shows "interpolate f v (pre @ placeholder name @ post) =
         interpolate f v pre @ replace_var f v name @ interpolate f v post"
proof -
  have m: "match_var (placeholder name @ post) = Some (name, post)"
    using assms by (rule match_var_placeholder)
  obtain r where r: "placeholder name @ post = CHR ''$'' # r"
    by (simp add: placeholder_def)
  with m have "interpolate f v (CHR ''$'' # r) = replace_var f v name @ interpolate f v post"
    by simp
  with r show ?thesis
    by (simp add: interpolate_append)
qed
section \<open>Sequencing and validation lemmas\<close>

declare str_nat.simps [simp del]

lemma bind_io_lift_Inr [simp]: "bind_io (lift_io (Inr x)) f = f x"
  by (simp add: bind_io_def lift_io_def split: prod.splits)

lemma bind_io_lift_Inl [simp]: "bind_io (lift_io (Inl e)) f = (Inl e, [])"
  by (simp add: bind_io_def lift_io_def)

lemma bind_io_return [simp]: "bind_io (return_io x) f = f x"
  by (simp add: bind_io_def return_io_def split: prod.splits)

lemma bind_io_print [simp]: "bind_io (print_io s) f = apsnd ((#) (Print s)) (f ())"
  by (simp add: bind_io_def print_io_def split: prod.splits)

lemma bind_io_Inr [simp]: "bind_io (Inr x, out) f = apsnd ((@) out) (f x)"
  by (simp add: bind_io_def split: prod.splits)

lemma bind_io_Inl [simp]: "bind_io (Inl e, out) f = (Inl e, out)"
  by (simp add: bind_io_def)

lemma validate_ok_iff:
  "validate_diff_plan p = Inr () \<longleftrightarrow>
     (\<exists>repo archs conf tech gs. dp_repo p = Some repo \<and> dp_archetypes p = Some archs \<and> archs \<noteq> []
        \<and> dp_confidence p = Some conf \<and> dp_tech_stack p = Some tech \<and> dp_gaps p = Some gs)"
  by (auto simp: validate_diff_plan_def required_fields_def getitem_def Let_def
      split: option.splits if_splits)

lemma validate_error:
  "validate_diff_plan p \<noteq> Inr () \<Longrightarrow> \<exists>msg. validate_diff_plan p = Inl (ValueError msg)"
  by (auto simp: validate_diff_plan_def required_fields_def getitem_def Let_def
      split: option.splits if_splits)

lemma contains_append: "contains sub (a @ sub @ b)"
proof (induction a)
  case Nil
  show ?case
  proof (cases "sub @ b")
    case Nil
    then show ?thesis by simp
  next
    case (Cons c cs)
    have "prefix sub (sub @ b)" by simp
    with Cons show ?thesis by simp
  qed
next
  case (Cons x a)
  then show ?case by simp
qed

lemma build_context_valid:
  assumes "validate_diff_plan p = Inr ()"
  shows "\<exists>c. build_template_context env p repo_url = Inr c"
  using assms
  by (auto simp: validate_ok_iff build_template_context_def getitem_def Let_def)

lemma build_context_service_name:
  assumes "build_template_context env p repo_url = Inr c"
  shows "dp_repo p = Some (service_name c)"
  using assms
  by (auto simp: build_template_context_def getitem_def Let_def post_init_def
      split: option.splits sum.splits if_splits)

lemma gap_artifacts_prints: "\<forall>ev\<in>set (snd (gap_artifacts env c g)). \<not> is_vcs_call ev"
  by (auto simp: gap_artifacts_def Let_def is_vcs_call_def split: sum.splits)

lemma gaps_artifacts_prints: "\<forall>ev\<in>set (snd (gaps_artifacts env c gs)). \<not> is_vcs_call ev"
proof (induction gs)
  case Nil
  show ?case by simp
next
  case (Cons g gs)
  then show ?case
    using gap_artifacts_prints [of env c g] by (auto split: prod.splits)
qed

lemma generate_artifacts_prints:
  "\<forall>ev\<in>set (snd (generate_artifacts env p c)). \<not> is_vcs_call ev"
  using gaps_artifacts_prints [of env c "plan_gaps p"]
  by (auto simp: generate_artifacts_def Let_def split: prod.splits sum.splits)

lemma process_past_gate:
  assumes valid: "validate_diff_plan p = Inr ()"
    and conf: "dp_confidence p = Some conf" "\<not> conf < confidence_threshold config"
    and ctx: "build_template_context env p repo_url = Inr c"
  shows "\<exists>header. (\<forall>ev\<in>set header. \<not> is_vcs_call ev) \<and>
     process_diff_plan env config p repo_url dry_run =
       (case generate_artifacts env p c of
          (Inl e, out) \<Rightarrow> (Inl e, header @ out)
        | (Inr artifacts, out) \<Rightarrow>
            (let generated = Print (''  Generated '' @ str_nat (length artifacts) @ '' files'')
             in case generate_pr_description env p artifacts c of
                  Inl e \<Rightarrow> (Inl e, header @ out @ [generated])
                | Inr pr_description \<Rightarrow>
                    if dry_run then
                      (Inr (DryRun (dp_diff_plan_id p)
                              (map (\<lambda>a. (file_path a, action a)) artifacts) pr_description),
                       header @ out @ [generated])
                    else if auto_create_pr config then
                      apsnd ((@) (header @ out @ [generated, Print ''\<newline>Creating Pull Request...'']))
                        (create_pull_request env config repo_url p artifacts pr_description)
                    else
                      (Inr (ArtifactsGenerated (dp_diff_plan_id p) (length artifacts)),
                       header @ out @ [generated])))"
proof -
  from valid obtain repo archs where p: "dp_repo p = Some repo" "dp_archetypes p = Some archs"
    by (auto simp: validate_ok_iff)
  define header where "header =
    [Print (''Processing Diff Plan for: '' @ repo), Print (''  Archetypes: '' @ join '', '' archs),
     Print (''  Confidence: '' @ fmt_pct env conf),
     Print (''  Gaps: '' @ str_nat (length (plan_gaps p))), Print ''\<newline>Generating artifacts...'']"
  have no_vcs: "\<forall>ev\<in>set header. \<not> is_vcs_call ev"
    by (simp add: header_def is_vcs_call_def)
  obtain r out where ga: "generate_artifacts env p c = (r, out)"
    by (cases "generate_artifacts env p c")
  note facts = valid conf ctx p ga
  note defs = process_diff_plan_def get_or_def getitem_def header_def return_io_def
  have "process_diff_plan env config p repo_url dry_run =
       (case generate_artifacts env p c of
          (Inl e, out) \<Rightarrow> (Inl e, header @ out)
        | (Inr artifacts, out) \<Rightarrow>
            (let generated = Print (''  Generated '' @ str_nat (length artifacts) @ '' files'')
             in case generate_pr_description env p artifacts c of
                  Inl e \<Rightarrow> (Inl e, header @ out @ [generated])
                | Inr pr_description \<Rightarrow>
                    if dry_run then
                      (Inr (DryRun (dp_diff_plan_id p)
                              (map (\<lambda>a. (file_path a, action a)) artifacts) pr_description),
                       header @ out @ [generated])
                    else if auto_create_pr config then
                      apsnd ((@) (header @ out @ [generated, Print ''\<newline>Creating Pull Request...'']))
                        (create_pull_request env config repo_url p artifacts pr_description)
                    else
                      (Inr (ArtifactsGenerated (dp_diff_plan_id p) (length artifacts)),
                       header @ out @ [generated])))"
  proof (cases r)
    case (Inl e)
    with facts show ?thesis by (simp add: defs)
  next
    case (Inr artifacts)
    show ?thesis
    proof (cases "generate_pr_description env p artifacts c")
      case (Inl e)
      with facts Inr show ?thesis by (simp add: defs)
    next
      case d: (Inr pr_description)
      obtain r' out' where cpr:
        "create_pull_request env config repo_url p artifacts pr_description = (r', out')"
        by (cases "create_pull_request env config repo_url p artifacts pr_description")
      with facts Inr d show ?thesis
        by (simp add: defs)
    qed
  qed
  with no_vcs show ?thesis by blast
qed

lemma gap_types_typed:
  "\<forall>g\<in>set gs. gap_type g \<noteq> None \<Longrightarrow> gap_types gs = Inr (map (\<lambda>g. the (gap_type g)) gs)"
  by (induction gs) (auto simp: getitem_def)

lemma gap_types_untyped:
  "\<exists>g\<in>set gs. gap_type g = None \<Longrightarrow> gap_types gs = Inl (KeyError ''type'')"
proof (induction gs)
  case Nil
  then show ?case by simp
next
  case (Cons g gs)
  show ?case
  proof (cases "gap_type g")
    case None
    then show ?thesis by (simp add: getitem_def)
  next
    case (Some t)
    with Cons.prems have "\<exists>g\<in>set gs. gap_type g = None" by auto
    with Cons.IH Some show ?thesis by (simp add: getitem_def)
  qed
qed

lemma gap_types_Inr:
  "gap_types gs = Inr ts \<Longrightarrow> (\<forall>g\<in>set gs. gap_type g \<noteq> None) \<and> ts = map (\<lambda>g. the (gap_type g)) gs"
  by (induction gs arbitrary: ts) (auto simp: getitem_def split: option.splits sum.splits)

lemma patch_artifacts_ok:
  "\<forall>pt\<in>set pts. patch_file pt \<noteq> None \<and> patch_action pt \<noteq> None \<Longrightarrow>
     \<exists>as. patch_artifacts pts = Inr as"
  by (induction pts) (auto simp: patch_artifact_def getitem_def)

lemma patch_artifacts_error:
  "patch_artifacts pts = Inl e \<Longrightarrow> e = KeyError ''file'' \<or> e = KeyError ''action''"
  by (induction pts) (auto simp: patch_artifact_def getitem_def split: option.splits sum.splits)

lemma gap_lines_ok:
  "\<forall>g\<in>set gs. gap_type g \<noteq> None \<and> gap_priority g \<noteq> None \<and> gap_description g \<noteq> None \<Longrightarrow>
     \<exists>ls. gap_lines gs = Inr ls"
  by (induction gs) (auto simp: getitem_def)

lemma generate_pr_description_ok:
  assumes "\<forall>g\<in>set (plan_gaps p). gap_type g \<noteq> None \<and> gap_priority g \<noteq> None \<and> gap_description g \<noteq> None"
  shows "\<exists>d. generate_pr_description env p artifacts c = Inr d"
proof -
  from gap_lines_ok [OF assms] obtain ls where "gap_lines (plan_gaps p) = Inr ls" ..
  then show ?thesis
    by (simp add: generate_pr_description_def Let_def)
qed

lemma generate_artifacts_ok:
  assumes "\<forall>g\<in>set (plan_gaps p). gap_type g \<noteq> None"
    and "\<forall>pt\<in>set (get_or [] (dp_patch_plan p)). patch_file pt \<noteq> None \<and> patch_action pt \<noteq> None"
  shows "\<exists>arts out. generate_artifacts env p c = (Inr arts, out)"
proof -
  from patch_artifacts_ok [OF assms(2)] obtain as where
    "patch_artifacts (get_or [] (dp_patch_plan p)) = Inr as" ..
  moreover note gap_types_typed [OF assms(1)]
  ultimately show ?thesis
    by (simp add: generate_artifacts_def Let_def split: prod.splits)
qed

lemma generate_artifacts_untyped:
  assumes "\<exists>g\<in>set (plan_gaps p). gap_type g = None"
  shows "\<exists>k out. generate_artifacts env p c = (Inl (KeyError k), out)
           \<and> (patch_artifacts (get_or [] (dp_patch_plan p)) \<noteq> Inl (KeyError ''file'')
                \<and> patch_artifacts (get_or [] (dp_patch_plan p)) \<noteq> Inl (KeyError ''action'')
              \<longrightarrow> k = ''type'')"
proof (cases "patch_artifacts (get_or [] (dp_patch_plan p))")
  case (Inl e)
  with patch_artifacts_error [OF Inl] show ?thesis
    by (auto simp: generate_artifacts_def split: prod.splits)
next
  case (Inr as)
  with gap_types_untyped [OF assms] show ?thesis
    by (simp add: generate_artifacts_def Let_def split: prod.splits)
qed

lemma create_pull_request_ok:
  fixes env config repo_url p artifacts pr_description repo_name archs
  defines "branch_name \<equiv>
    branch_prefix config @ ''-'' @ repo_name @ ''-'' @ str_int (now_timestamp env)"
    and "pr_title \<equiv>
      ''feat(observability): Add '' @ join '', '' (take 2 archs) @ '' instrumentation''"
    and "labels \<equiv> pr_labels config @ map (\<lambda>a. ''archetype:'' @ a) (take 2 archs)"
  assumes repo: "dp_repo p = Some repo_name"
    and types: "gap_types (plan_gaps p) = Inr types"
    and conf: "dp_confidence p = Some conf"
    and archs: "dp_archetypes p = Some archs"
    and cb: "vcs_create_branch env repo_url branch_name (default_branch config) = None"
    and cf: "\<forall>m. vcs_commit_files env repo_url branch_name (files_to_commit artifacts) m = None"
    and cp: "vcs_create_pull_request env repo_url pr_title pr_description branch_name
               (default_branch config) labels = Inr pr"
  shows "\<exists>message.
     create_pull_request env config repo_url p artifacts pr_description =
       (Inr (Published
          \<lparr>pub_diff_plan_id = dp_diff_plan_id p, pr_number = pr_result_number pr,
           pr_url = pr_result_url pr, branch = branch_name, files_changed = length artifacts,
           pub_archetypes = archs, gaps_addressed = types\<rparr>),
        [Print (''  Creating branch: '' @ branch_name),
         CreateBranch repo_url branch_name (default_branch config),
         Print (''  Committing '' @ str_nat (length (files_to_commit artifacts)) @ '' files...''),
         CommitFiles repo_url branch_name (files_to_commit artifacts) message,
         Print (''  Creating PR: '' @ pr_title),
         CreatePullRequest repo_url pr_title pr_description branch_name (default_branch config) labels,
         Print (''  PR created: '' @ get_or ''N/A'' (pr_result_url pr))])"
  using repo types conf archs cb cf cp
  unfolding branch_name_def pr_title_def labels_def
  by (simp add: create_pull_request_def getitem_def Let_def return_io_def)

lemma example_valid: "validate_diff_plan example_plan = Inr ()"
  by (simp add: validate_diff_plan_def required_fields_def getitem_def example_plan_def)

lemma example_context:
  "build_template_context example_env example_plan example_url = Inr example_ctx"
  by (simp add: build_template_context_def example_plan_def example_env_def example_ctx_def
      getitem_def get_or_def plan_gaps_def otel_gap_def kafka_gap_def str_lower_def
      lower_char_def ascii_upper_def ascii_lower_def post_init_def get_owner_team_def
      get_otel_version_def)

lemma example_render_fails:
  "render_template example_env ''kafka-consumer-otel-java'' c =
     Inl (OtherError ''[Errno 2] No such file or directory'')"
  by (simp add: render_template_def find_template_dir_def rsplit1_def example_env_def)

lemma example_test_path:
  "get_test_path example_ctx =
     ''src/test/java/com/company/orders/enricher/otel/OrdersenricherOtelInterceptorTest.java''"
  by (simp add: get_test_path_def example_ctx_def get_or_def replace_char_def title_def
      upper_char_def lower_char_def is_cased_def ascii_upper_def ascii_lower_def)

lemma example_artifacts:
  "generate_artifacts example_env example_plan example_ctx =
     (Inr [\<lparr>file_path = ''RUNBOOK.md'', content = render_runbook example_env example_ctx,
            action = ''create'', template = Some ''runbook''\<rparr>,
           \<lparr>file_path = ''src/test/java/com/company/orders/enricher/otel/OrdersenricherOtelInterceptorTest.java'',
            content = render_telemetry_test example_env example_ctx,
            action = ''create'', template = Some ''telemetry-test''\<rparr>],
      [Print (''  Warning: Failed to render template kafka-consumer-otel-java: ''
               @ ''[Errno 2] No such file or directory'')])"
  by (simp add: generate_artifacts_def example_plan_def plan_gaps_def get_or_def otel_gap_def
      gap_artifacts_def example_render_fails str_error_def getitem_def runbook_artifacts_def
      lineage_artifacts_def contract_artifacts_def telemetry_artifacts_def example_test_path)

lemma example_class_name:
  "to_dict example_env example_ctx ''CLASS_NAME'' = Some (PStr ''OrdersEnricher'')"
  by (simp add: to_dict_def example_ctx_def capitalize_def str_lower_def
      upper_char_def lower_char_def ascii_upper_def ascii_lower_def)

section \<open>Dictionaries and the publishing step\<close>

lemma map_of_dict_set: "map_of (dict_set d k v) = (map_of d)(k \<mapsto> v)"
  by (induction d k v rule: dict_set.induct) auto

lemma keys_dict_set: "fst ` set (dict_set d k v) = insert k (fst ` set d)"
  by (induction d k v rule: dict_set.induct) auto

lemma distinct_dict_set: "distinct (map fst d) \<Longrightarrow> distinct (map fst (dict_set d k v))"
  by (induction d k v rule: dict_set.induct) (auto simp: keys_dict_set)

lemma map_of_dict_of: "map_of (dict_of d items) = map_of d ++ map_of (rev items)"
proof (induction d items rule: dict_of.induct)
  case (1 d)
  show ?case by simp
next
  case (2 d k v items)
  have "map_of (dict_of (dict_set d k v) items) = map_of (dict_set d k v) ++ map_of (rev items)"
    by (rule 2)
  also have "\<dots> = (map_of d)(k \<mapsto> v) ++ map_of (rev items)"
    by (simp only: map_of_dict_set)
  also have "\<dots> = map_of d ++ map_of (rev ((k, v) # items))"
    by (rule ext) (simp add: map_add_def split: option.splits)
  finally show ?case
    by (simp only: dict_of.simps)
qed

lemma keys_dict_of: "fst ` set (dict_of d items) = fst ` set d \<union> fst ` set items"
  by (induction d items rule: dict_of.induct) (auto simp: keys_dict_set)

lemma distinct_dict_of: "distinct (map fst d) \<Longrightarrow> distinct (map fst (dict_of d items))"
  by (induction d items rule: dict_of.induct) (auto simp: distinct_dict_set)

lemma files_to_commit_distinct: "distinct (map fst (files_to_commit arts))"
  by (simp add: files_to_commit_def distinct_dict_of)

lemma files_to_commit_keys: "fst ` set (files_to_commit arts) = file_path ` set arts"
  by (simp add: files_to_commit_def keys_dict_of image_image)

lemma files_to_commit_length: "length (files_to_commit arts) = card (file_path ` set arts)"
proof -
  have "length (files_to_commit arts) = length (map fst (files_to_commit arts))"
    by simp
  also have "\<dots> = card (set (map fst (files_to_commit arts)))"
    using files_to_commit_distinct [of arts] by (simp only: distinct_card)
  also have "\<dots> = card (file_path ` set arts)"
    by (simp add: files_to_commit_keys)
  finally show ?thesis .
qed

lemma files_to_commit_le: "length (files_to_commit arts) \<le> length arts"
  unfolding files_to_commit_length
  using card_image_le [of "set arts" file_path] card_length [of arts] by simp

lemma files_to_commit_less:
  assumes "\<not> distinct (map file_path arts)"
  shows "length (files_to_commit arts) < length arts"
proof -
  have "card (set (map file_path arts)) \<noteq> length (map file_path arts)"
    using assms card_distinct by blast
  moreover have "card (set (map file_path arts)) \<le> length (map file_path arts)"
    by (rule card_length)
  ultimately show ?thesis
    by (simp add: files_to_commit_length)
qed

lemma files_to_commit_last:
  "map_of (files_to_commit arts) path =
     (case filter (\<lambda>a. file_path a = path) arts of
        [] \<Rightarrow> None
      | a # as \<Rightarrow> Some (content (last (a # as))))"
proof -
  have "map_of (rev (map (\<lambda>a. (file_path a, content a)) arts)) path =
     (case filter (\<lambda>a. file_path a = path) arts of
        [] \<Rightarrow> None
      | a # as \<Rightarrow> Some (content (last (a # as))))"
    by (induction arts rule: rev_induct) (auto split: list.splits)
  then show ?thesis
    by (simp add: files_to_commit_def map_of_dict_of)
qed


lemma commits_append: "commits (xs @ ys) = commits xs @ commits ys"
  by (simp add: commits_def)

lemma bind_io_InrE:
  assumes "bind_io m f = (Inr r, evs)"
  obtains x out out' where "m = (Inr x, out)" "f x = (Inr r, out')" "evs = out @ out'"
  using assms by (auto simp: bind_io_def split: prod.splits sum.splits)

lemma create_pull_request_Inr:
  assumes run: "create_pull_request env config repo_url p arts d = (Inr r, evs)"
  shows "(\<exists>pub. r = Published pub \<and> files_changed pub = length arts)
     \<and> commits evs = [files_to_commit arts]"
  using run unfolding create_pull_request_def Let_def
  by (elim bind_io_InrE)
    (auto simp: commits_def print_io_def lift_io_def return_io_def)


lemma commits_prints: "\<forall>ev\<in>set evs. \<not> is_vcs_call ev \<Longrightarrow> commits evs = []"
  by (induction evs) (auto simp: commits_def is_vcs_call_def split: event.splits)

lemma commits_Cons:
  "commits (ev # evs) =
     (case ev of CommitFiles u b files m \<Rightarrow> [files] | _ \<Rightarrow> []) @ commits evs"
  by (simp add: commits_def)

lemma commits_Nil: "commits [] = []"
  by (simp add: commits_def)

lemma generate_artifacts_commits:
  "generate_artifacts env p c = (r, out) \<Longrightarrow> commits out = []"
  using generate_artifacts_prints [of env p c] by (simp add: commits_prints)

lemma process_published:
  assumes run: "process_diff_plan env config p repo_url dry_run = (Inr (Published pub), events)"
  shows "\<exists>c arts out d evs.
     build_template_context env p repo_url = Inr c
     \<and> generate_artifacts env p c = (Inr arts, out)
     \<and> create_pull_request env config repo_url p arts d = (Inr (Published pub), evs)
     \<and> commits events = commits evs \<and> \<not> dry_run \<and> auto_create_pr config"
  using run unfolding process_diff_plan_def Let_def
  apply (elim bind_io_InrE)
  apply (split if_split_asm)
   apply (simp add: return_io_def)
  apply (elim bind_io_InrE)
  apply (split if_split_asm)
   apply (simp add: return_io_def)
  apply (split if_split_asm)
   prefer 2
   apply (simp add: return_io_def)
  apply (elim bind_io_InrE)
  apply (frule generate_artifacts_commits)
  apply (auto simp: lift_io_def print_io_def commits_append commits_Cons commits_Nil)
  apply blast
  done


lemma process_publishes:
  assumes valid: "validate_diff_plan p = Inr ()"
    and conf: "dp_confidence p = Some conf" "\<not> conf < confidence_threshold config"
    and gaps: "\<forall>g\<in>set (plan_gaps p).
        gap_type g \<noteq> None \<and> gap_priority g \<noteq> None \<and> gap_description g \<noteq> None"
    and patches: "\<forall>pt\<in>set (get_or [] (dp_patch_plan p)).
        patch_file pt \<noteq> None \<and> patch_action pt \<noteq> None"
    and auto: "auto_create_pr config"
    and cb: "\<forall>u b d. vcs_create_branch env u b d = None"
    and cf: "\<forall>u b f m. vcs_commit_files env u b f m = None"
    and cp: "\<forall>u t b h d l. \<exists>pr. vcs_create_pull_request env u t b h d l = Inr pr"
  shows "\<exists>pub out. process_diff_plan env config p repo_url False = (Inr (Published pub), out)"
proof -
  from valid obtain repo archs where p: "dp_repo p = Some repo" "dp_archetypes p = Some archs"
    by (auto simp: validate_ok_iff)
  from build_context_valid [OF valid] obtain c where
    ctx: "build_template_context env p repo_url = Inr c" ..
  from gaps have typed: "\<forall>g\<in>set (plan_gaps p). gap_type g \<noteq> None"
    by blast
  from generate_artifacts_ok [OF typed patches] obtain arts out where
    ga: "generate_artifacts env p c = (Inr arts, out)" by blast
  from generate_pr_description_ok [OF gaps] obtain d where
    d: "generate_pr_description env p arts c = Inr d" by blast
  from cp obtain pr where pr: "vcs_create_pull_request env repo_url
      (''feat(observability): Add '' @ join '', '' (take 2 archs) @ '' instrumentation'') d
      (branch_prefix config @ ''-'' @ repo @ ''-'' @ str_int (now_timestamp env))
      (default_branch config)
      (pr_labels config @ map (\<lambda>a. ''archetype:'' @ a) (take 2 archs)) = Inr pr"
    by blast
  from create_pull_request_ok [OF p(1) gap_types_typed [OF typed] conf(1) p(2) _ _ pr, of arts]
    cb cf
  obtain r where "create_pull_request env config repo_url p arts d =
      (Inr (Published r), snd (create_pull_request env config repo_url p arts d))"
    by auto
  with process_past_gate [OF valid conf ctx, of False] auto ga d show ?thesis
    by (cases "create_pull_request env config repo_url p arts d") auto
qed

lemma dup_context:
  "build_template_context example_env dup_plan example_url = Inr example_ctx"
  by (simp add: build_template_context_def dup_plan_def example_plan_def example_env_def
      example_ctx_def getitem_def get_or_def plan_gaps_def otel_gap_def kafka_gap_def
      str_lower_def lower_char_def ascii_upper_def ascii_lower_def post_init_def
      get_owner_team_def get_otel_version_def)

lemma dup_artifacts:
  "fst (generate_artifacts example_env dup_plan example_ctx) =
     Inr [\<lparr>file_path = ''README.md'', content = ''first'', action = ''create'', template = None\<rparr>,
          \<lparr>file_path = ''README.md'', content = ''second'', action = ''update'', template = None\<rparr>,
          \<lparr>file_path = ''RUNBOOK.md'', content = render_runbook example_env example_ctx,
            action = ''create'', template = Some ''runbook''\<rparr>,
           \<lparr>file_path = ''src/test/java/com/company/orders/enricher/otel/OrdersenricherOtelInterceptorTest.java'',
            content = render_telemetry_test example_env example_ctx,
            action = ''create'', template = Some ''telemetry-test''\<rparr>]"
  by (simp add: generate_artifacts_def dup_plan_def example_plan_def plan_gaps_def get_or_def
      otel_gap_def gap_artifacts_def example_render_fails str_error_def getitem_def
      patch_artifact_def runbook_artifacts_def
      lineage_artifacts_def contract_artifacts_def telemetry_artifacts_def example_test_path)

section \<open>The loop over the gaps\<close>

lemma gaps_artifacts_append:
  "gaps_artifacts env c (xs @ ys) =
     (fst (gaps_artifacts env c xs) @ fst (gaps_artifacts env c ys),
      snd (gaps_artifacts env c xs) @ snd (gaps_artifacts env c ys))"
  by (induction xs) (auto split: prod.splits)

lemma gaps_artifacts_Cons:
  "gaps_artifacts env c (g # gs) =
     (fst (gap_artifacts env c g) @ fst (gaps_artifacts env c gs),
      snd (gap_artifacts env c g) @ snd (gaps_artifacts env c gs))"
  by (auto split: prod.splits)

lemma gap_types_cong:
  "map gap_type gs = map gap_type gs' \<Longrightarrow> gap_types gs = gap_types gs'"
proof (induction gs arbitrary: gs')
  case Nil
  then show ?case by simp
next
  case (Cons g gs)
  then obtain g' gs'' where gs': "gs' = g' # gs''" "gap_type g = gap_type g'"
    "map gap_type gs = map gap_type gs''"
    by (cases gs') auto
  with Cons.IH [of gs''] show ?case
    by (simp split: sum.splits)
qed

lemma gap_lines_cong:
  "map (\<lambda>g. (gap_priority g, gap_type g, gap_description g)) gs =
   map (\<lambda>g. (gap_priority g, gap_type g, gap_description g)) gs' \<Longrightarrow>
   gap_lines gs = gap_lines gs'"
proof (induction gs arbitrary: gs')
  case Nil
  then show ?case by simp
next
  case (Cons g gs)
  then obtain g' gs'' where gs': "gs' = g' # gs''" "gap_priority g = gap_priority g'"
    "gap_type g = gap_type g'" "gap_description g = gap_description g'"
    "map (\<lambda>g. (gap_priority g, gap_type g, gap_description g)) gs =
     map (\<lambda>g. (gap_priority g, gap_type g, gap_description g)) gs''"
    by (cases gs') auto
  with Cons.IH [of gs''] show ?case
    by (simp split: sum.splits)
qed

lemma gap_artifacts_failed:
  assumes "gap_template g = Some t" "t \<noteq> []" "render_template env t c = Inl e"
  shows "gap_artifacts env c g =
     ([], [Print (''  Warning: Failed to render template '' @ t @ '': '' @ str_error e)])"
  using assms by (simp add: gap_artifacts_def get_or_def)

lemma gap_artifacts_no_template:
  "gap_artifacts env c (g\<lparr>gap_template := None\<rparr>) = ([], [])"
  by (simp add: gap_artifacts_def get_or_def)

lemma empty_templates_render_fails:
  "render_template empty_templates_env ''kafka-consumer-otel-java'' c =
     Inl (ValueError ''Template not found: kafka-consumer-otel-java'')"
  by (simp add: render_template_def find_template_dir_def rsplit1_def empty_templates_env_def
      example_env_def)

lemma three_gaps_context:
  "build_template_context empty_templates_env three_gaps_plan example_url = Inr example_ctx"
  by (simp add: build_template_context_def three_gaps_plan_def example_plan_def
      empty_templates_env_def example_env_def
      example_ctx_def getitem_def get_or_def plan_gaps_def otel_gap_def lineage_gap_def
      contract_gap_def kafka_gap_def
      str_lower_def lower_char_def ascii_upper_def ascii_lower_def post_init_def
      get_owner_team_def get_otel_version_def)

section \<open>Paths of the synthesized artifacts\<close>

lemma get_test_path_not_lineage: "get_test_path c \<noteq> ''lineage/'' @ x"
  by (auto simp: get_test_path_def get_or_def Let_def)

lemma patch_artifacts_paths:
  "patch_artifacts pts = Inr as \<Longrightarrow> map (\<lambda>a. Some (file_path a)) as = map patch_file pts"
  by (induction pts arbitrary: as)
    (auto simp: patch_artifact_def getitem_def split: option.splits sum.splits)

lemma lineage_patch_context:
  "build_template_context example_env lineage_patch_plan example_url = Inr example_ctx"
  by (simp add: build_template_context_def lineage_patch_plan_def example_plan_def
      example_env_def example_ctx_def getitem_def get_or_def plan_gaps_def otel_gap_def
      kafka_gap_def str_lower_def lower_char_def ascii_upper_def ascii_lower_def post_init_def
      get_owner_team_def get_otel_version_def)

section \<open>The three calls of the publishing step\<close>

lemma create_pull_request_calls:
  fixes env config repo_url p artifacts pr_description repo_name archs types conf
  defines "branch_name \<equiv>
    branch_prefix config @ ''-'' @ repo_name @ ''-'' @ str_int (now_timestamp env)"
    and "message \<equiv> text_lines [
           ''feat(observability): Add instrumentation via Autopilot'',
           '''',
           ''Addresses gaps detected by Scout Agent:'',
           join ''\<newline>'' (map (\<lambda>t. ''- '' @ t) types),
           '''',
           ''Diff Plan ID: '' @ get_or ''N/A'' (dp_diff_plan_id p),
           ''Confidence: '' @ fmt_pct env conf]"
    and "pr_title \<equiv>
      ''feat(observability): Add '' @ join '', '' (take 2 archs) @ '' instrumentation''"
    and "labels \<equiv> pr_labels config @ map (\<lambda>a. ''archetype:'' @ a) (take 2 archs)"
  assumes repo: "dp_repo p = Some repo_name"
    and types: "gap_types (plan_gaps p) = Inr types"
    and conf: "dp_confidence p = Some conf"
    and archs: "dp_archetypes p = Some archs"
    and cb: "vcs_create_branch env repo_url branch_name (default_branch config) = None"
    and cf: "vcs_commit_files env repo_url branch_name (files_to_commit artifacts) message = None"
    and cp: "vcs_create_pull_request env repo_url pr_title pr_description branch_name
               (default_branch config) labels = Inr pr"
  shows "create_pull_request env config repo_url p artifacts pr_description =
       (Inr (Published
          \<lparr>pub_diff_plan_id = dp_diff_plan_id p, pr_number = pr_result_number pr,
           pr_url = pr_result_url pr, branch = branch_name, files_changed = length artifacts,
           pub_archetypes = archs, gaps_addressed = types\<rparr>),
        [Print (''  Creating branch: '' @ branch_name),
         CreateBranch repo_url branch_name (default_branch config),
         Print (''  Committing '' @ str_nat (length (files_to_commit artifacts)) @ '' files...''),
         CommitFiles repo_url branch_name (files_to_commit artifacts) message,
         Print (''  Creating PR: '' @ pr_title),
         CreatePullRequest repo_url pr_title pr_description branch_name (default_branch config) labels,
         Print (''  PR created: '' @ get_or ''N/A'' (pr_result_url pr))])"
  using repo types conf archs cb cf cp
  unfolding branch_name_def pr_title_def labels_def message_def
  by (simp add: create_pull_request_def getitem_def Let_def return_io_def)


lemma filter_no_vcs: "\<forall>ev\<in>set evs. \<not> is_vcs_call ev \<Longrightarrow> filter is_vcs_call evs = []"
  by (simp add: filter_empty_conv)

section \<open>Claims about the interpolation engine\<close>

text \<open>
  Claim C7. A placeholder \<^verbatim>\<open>${NAME}\<close> (a non-empty name of word characters) standing
  anywhere in a template, between any text \<open>pre\<close> and any text \<open>post\<close>, is copied to the
  output unchanged when the mapping has no entry for the name, and is replaced by the
  elements joined with a comma and a space when the entry is a list; the text before and
  the text after are interpolated on their own. In particular
  \<^verbatim>\<open>interpolate("${UNKNOWN_X}", {})\<close> is \<^verbatim>\<open>"${UNKNOWN_X}"\<close>. No error is possible:
  \<open>interpolate\<close> is a total function returning a string.
\<close>

theorem interpolate_unknown_kept_list_joined:
  assumes "name \<noteq> []" and "\<forall>c\<in>set name. is_word c"
  shows "(variables name = None \<longrightarrow>
            interpolate f variables (pre @ ''${'' @ name @ ''}'' @ post) =
            interpolate f variables pre @ ''${'' @ name @ ''}'' @ interpolate f variables post)
       \<and> (\<forall>vs. variables name = Some (PList vs) \<longrightarrow>
            interpolate f variables (pre @ ''${'' @ name @ ''}'' @ post) =
            interpolate f variables pre @ join '', '' vs @ interpolate f variables post)
       \<and> interpolate f Map.empty ''${UNKNOWN_X}'' = ''${UNKNOWN_X}''"
proof (intro conjI impI allI)
  have split: "interpolate f variables (pre @ ''${'' @ name @ ''}'' @ post) =
      interpolate f variables pre @ replace_var f variables name @ interpolate f variables post"
    using interpolate_placeholder [OF assms, of f variables pre post]
    by (simp add: placeholder_def)
  show "interpolate f variables (pre @ ''${'' @ name @ ''}'' @ post) =
      interpolate f variables pre @ ''${'' @ name @ ''}'' @ interpolate f variables post"
    if "variables name = None"
    using that split by (simp add: replace_var_def placeholder_def)
  show "interpolate f variables (pre @ ''${'' @ name @ ''}'' @ post) =
      interpolate f variables pre @ join '', '' vs @ interpolate f variables post"
    if "variables name = Some (PList vs)" for vs
    using that split by (simp add: replace_var_def)
  have "\<forall>c\<in>set ''UNKNOWN_X''. is_word c"
    by (simp add: is_word_def ascii_lower_def ascii_upper_def ascii_digits_def)
  then have "interpolate f Map.empty ([] @ placeholder ''UNKNOWN_X'' @ []) =
      interpolate f Map.empty [] @ replace_var f Map.empty ''UNKNOWN_X'' @ interpolate f Map.empty []"
    by (intro interpolate_placeholder) simp_all
  then show "interpolate f Map.empty ''${UNKNOWN_X}'' = ''${UNKNOWN_X}''"
    by (simp add: replace_var_def placeholder_def)
qed

theorem interpolate_unknown_kept_list_joined_witness:
  "interpolate (\<lambda>x. ''0.87'') [''TAGS'' \<mapsto> PList [''a'', ''b'']] ''x=${MISSING};'' = ''x=${MISSING};''
   \<and> interpolate (\<lambda>x. ''0.87'') [''TAGS'' \<mapsto> PList [''a'', ''b'']] ''t: ${TAGS}.'' = ''t: a, b.''"
proof -
  let ?v = "[''TAGS'' \<mapsto> PList [''a'', ''b'']]"
  let ?f = "\<lambda>x::rat. ''0.87''"
  have w1: "\<forall>c\<in>set ''MISSING''. is_word c" and w2: "\<forall>c\<in>set ''TAGS''. is_word c"
    by (simp_all add: is_word_def ascii_lower_def ascii_upper_def ascii_digits_def)
  have plain: "interpolate ?f ?v ''x='' = ''x=''" "interpolate ?f ?v '';'' = '';''"
    "interpolate ?f ?v ''t: '' = ''t: ''" "interpolate ?f ?v ''.'' = ''.''"
    by (simp_all add: match_var_def)
  have "interpolate ?f ?v (''x='' @ ''${'' @ ''MISSING'' @ ''}'' @ '';'') =
      interpolate ?f ?v ''x='' @ ''${'' @ ''MISSING'' @ ''}'' @ interpolate ?f ?v '';''"
    using interpolate_unknown_kept_list_joined [of "''MISSING''" ?v ?f "''x=''" "'';''"] w1
    by simp
  moreover have "interpolate ?f ?v (''t: '' @ ''${'' @ ''TAGS'' @ ''}'' @ ''.'') =
      interpolate ?f ?v ''t: '' @ join '', '' [''a'', ''b''] @ interpolate ?f ?v ''.''"
    using interpolate_unknown_kept_list_joined [of "''TAGS''" ?v ?f "''t: ''" "''.''"] w2
    by simp
  ultimately show ?thesis
    using plain by simp
qed

text \<open>
  Claim C8. Interpolation is idempotent on fully resolved output: when the output of
  \<open>interpolate\<close> on \<open>t\<close> with \<open>v\<close> has no match of the placeholder pattern left,
  interpolating it again with \<open>v\<close> changes nothing.
\<close>

theorem interpolate_idempotent_when_resolved:
  assumes "\<not> has_placeholder (interpolate f v t)"
  shows "interpolate f v (interpolate f v t) = interpolate f v t"
  using assms by (rule interpolate_no_placeholder)

theorem interpolate_idempotent_when_resolved_witness:
  "interpolate (\<lambda>x. ''0.87'') [''NAME'' \<mapsto> PStr ''orders'']
     (interpolate (\<lambda>x. ''0.87'') [''NAME'' \<mapsto> PStr ''orders''] ''svc ${NAME}!'') = ''svc orders!''"
proof -
  let ?v = "[''NAME'' \<mapsto> PStr ''orders'']"
  let ?f = "\<lambda>x::rat. ''0.87''"
  have w: "is_word CHR ''N''" "is_word CHR ''A''" "is_word CHR ''M''" "is_word CHR ''E''"
    by (simp_all add: is_word_def ascii_lower_def ascii_upper_def ascii_digits_def)
  have out: "interpolate ?f ?v ''svc ${NAME}!'' = ''svc orders!''"
    using w by (simp add: match_var_def replace_var_def)
  have "\<not> has_placeholder ''svc orders!''"
    by (simp add: match_var_def)
  with out have "\<not> has_placeholder (interpolate ?f ?v ''svc ${NAME}!'')"
    by simp
  from interpolate_idempotent_when_resolved [OF this] out show ?thesis
    by simp
qed

section \<open>Claims about validation and the confidence gate\<close>

text \<open>
  Claim C4. A Diff Plan that misses one of the required keys (\<^verbatim>\<open>repo\<close>,
  \<^verbatim>\<open>archetypes\<close>, \<^verbatim>\<open>confidence\<close>, \<^verbatim>\<open>tech_stack\<close>, \<^verbatim>\<open>gaps\<close>) or
  whose list of archetypes is empty makes \<open>process_diff_plan\<close> raise the
  \<^verbatim>\<open>ValueError\<close> of the validation, in every environment and in both modes, before
  anything else happens: the run has no event (nothing printed, no call to the
  version-control client) and returns no result, so no artifact.
\<close>

theorem invalid_plan_raises_first:
  assumes "dp_repo p = None \<or> dp_archetypes p = None \<or> dp_confidence p = None
           \<or> dp_tech_stack p = None \<or> dp_gaps p = None \<or> dp_archetypes p = Some []"
  shows "\<exists>msg. validate_diff_plan p = Inl (ValueError msg)
           \<and> process_diff_plan env config p repo_url dry_run = (Inl (ValueError msg), [])"
proof -
  from assms have "validate_diff_plan p \<noteq> Inr ()"
    by (auto simp: validate_ok_iff)
  then obtain msg where "validate_diff_plan p = Inl (ValueError msg)"
    using validate_error by blast
  then show ?thesis
    by (simp add: process_diff_plan_def)
qed

theorem invalid_plan_raises_first_witness:
  "process_diff_plan example_env default_config (example_plan\<lparr>dp_gaps := None\<rparr>) example_url False =
     (Inl (ValueError (''Invalid Diff Plan: missing fields ['' @ [CHR 0x27] @ ''gaps''
                         @ [CHR 0x27] @ '']'')), [])"
proof -
  let ?p = "example_plan\<lparr>dp_gaps := None\<rparr>"
  have "dp_repo ?p = None \<or> dp_archetypes ?p = None \<or> dp_confidence ?p = None
      \<or> dp_tech_stack ?p = None \<or> dp_gaps ?p = None \<or> dp_archetypes ?p = Some []"
    by simp
  from invalid_plan_raises_first [OF this, of example_env default_config example_url False]
  obtain msg where v: "validate_diff_plan ?p = Inl (ValueError msg)"
    and r: "process_diff_plan example_env default_config ?p example_url False =
      (Inl (ValueError msg), [])"
    by blast
  have "validate_diff_plan ?p = Inl (ValueError (''Invalid Diff Plan: missing fields [''
      @ [CHR 0x27] @ ''gaps'' @ [CHR 0x27] @ '']''))"
    by (simp add: validate_diff_plan_def required_fields_def example_plan_def repr_str_list_def)
  with v r show ?thesis by simp
qed

text \<open>
  Claim C3. A Diff Plan that passes validation and whose confidence is below the
  configured threshold makes \<open>process_diff_plan\<close> return \<open>Skipped\<close>. The reason is
  \<^verbatim>\<open>Confidence \<close> followed by the confidence as Python prints it with two decimals,
  \<^verbatim>\<open> below threshold \<close> and the threshold as Python prints it, so both values stand in
  it. The run has no event, in every environment and in both modes: nothing is printed,
  no context is built, no artifact is generated and the version-control client is not
  called; the result does not depend on the clock, the template directory or the client.
\<close>

theorem low_confidence_is_skipped:
  assumes "validate_diff_plan p = Inr ()"
    and "dp_confidence p = Some conf"
    and "conf < confidence_threshold config"
  shows "process_diff_plan env config p repo_url dry_run =
           (Inr (Skipped (''Confidence '' @ fmt_2f env conf @ '' below threshold ''
                            @ str_float env (confidence_threshold config))
                   (dp_diff_plan_id p)), [])
       \<and> contains (fmt_2f env conf)
           (''Confidence '' @ fmt_2f env conf @ '' below threshold ''
              @ str_float env (confidence_threshold config))
       \<and> contains (str_float env (confidence_threshold config))
           (''Confidence '' @ fmt_2f env conf @ '' below threshold ''
              @ str_float env (confidence_threshold config))"
proof (intro conjI)
  show "process_diff_plan env config p repo_url dry_run =
           (Inr (Skipped (''Confidence '' @ fmt_2f env conf @ '' below threshold ''
                            @ str_float env (confidence_threshold config))
                   (dp_diff_plan_id p)), [])"
    using assms by (simp add: process_diff_plan_def get_or_def return_io_def)
  show "contains (fmt_2f env conf)
           (''Confidence '' @ fmt_2f env conf @ '' below threshold ''
              @ str_float env (confidence_threshold config))"
    by (rule contains_append)
  show "contains (str_float env (confidence_threshold config))
           (''Confidence '' @ fmt_2f env conf @ '' below threshold ''
              @ str_float env (confidence_threshold config))"
    using contains_append [of "str_float env (confidence_threshold config)"
        "''Confidence '' @ fmt_2f env conf @ '' below threshold ''" "[]"]
    by simp
qed

theorem low_confidence_is_skipped_witness:
  "process_diff_plan example_env default_config (example_plan\<lparr>dp_confidence := Some (1 / 2)\<rparr>)
     example_url False =
     (Inr (Skipped ''Confidence 0.50 below threshold 0.7'' None), [])"
proof -
  let ?p = "example_plan\<lparr>dp_confidence := Some (1 / 2)\<rparr>"
  have valid: "validate_diff_plan ?p = Inr ()"
    by (simp add: validate_diff_plan_def required_fields_def getitem_def example_plan_def)
  have conf: "dp_confidence ?p = Some (1 / 2)"
    by simp
  have low: "(1 / 2 :: rat) < confidence_threshold default_config"
    by (simp add: default_config_def float_0_7_def)
  from low_confidence_is_skipped [OF valid conf low, of example_env example_url False]
  show ?thesis
    by (simp add: example_env_def example_plan_def default_config_def get_or_def
        float_0_7_def float_0_87_def)
qed

section \<open>Claims about the outcome of a run\<close>

text \<open>
  Claim C2, as stated, fails: with \<^verbatim>\<open>auto_create_pr\<close> switched off and
  \<^verbatim>\<open>dry_run\<close> false, the example plan (valid, confidence 0.87 against the threshold
  0.7) gives the outcome \<^verbatim>\<open>artifacts_generated\<close>, which is neither \<open>DryRun\<close> nor
  \<open>Published\<close>.
\<close>

theorem auto_publish_off_counterexample:
  "validate_diff_plan example_plan = Inr ()
   \<and> dp_confidence example_plan = Some float_0_87
   \<and> \<not> float_0_87 < confidence_threshold manual_config
   \<and> fst (process_diff_plan example_env manual_config example_plan example_url False) =
       Inr (ArtifactsGenerated None 2)"
proof -
  have conf: "dp_confidence example_plan = Some float_0_87"
    by (simp add: example_plan_def)
  have gate: "\<not> float_0_87 < confidence_threshold manual_config"
    by (simp add: manual_config_def default_config_def float_0_7_def float_0_87_def)
  have id: "dp_diff_plan_id example_plan = None"
    by (simp add: example_plan_def)
  have off: "\<not> auto_create_pr manual_config"
    by (simp add: manual_config_def)
  have "\<exists>d. generate_pr_description example_env example_plan arts example_ctx = Inr d" for arts
    by (rule generate_pr_description_ok)
      (simp add: plan_gaps_def example_plan_def get_or_def otel_gap_def)
  then obtain d where d: "generate_pr_description example_env example_plan
      [\<lparr>file_path = ''RUNBOOK.md'', content = render_runbook example_env example_ctx,
         action = ''create'', template = Some ''runbook''\<rparr>,
        \<lparr>file_path = ''src/test/java/com/company/orders/enricher/otel/OrdersenricherOtelInterceptorTest.java'',
         content = render_telemetry_test example_env example_ctx,
         action = ''create'', template = Some ''telemetry-test''\<rparr>] example_ctx = Inr d"
    by blast
  from process_past_gate [OF example_valid conf gate example_context, of False]
  have "fst (process_diff_plan example_env manual_config example_plan example_url False) =
      Inr (ArtifactsGenerated None 2)"
    using d id off by (auto simp: example_artifacts)
  with example_valid conf gate show ?thesis
    by simp
qed

text \<open>
  Claim C2, amended. Take a Diff Plan that passes validation, has a confidence not below
  the threshold, and whose gaps each carry \<^verbatim>\<open>type\<close>, \<^verbatim>\<open>priority\<close> and
  \<^verbatim>\<open>description\<close> and whose patch instructions each carry \<^verbatim>\<open>file\<close> and
  \<^verbatim>\<open>action\<close>. Then artifact generation returns a list of artifacts, and
  \<open>process_diff_plan\<close> returns one result:
  \<^item> \<open>DryRun\<close> with the paths and actions of that list and the description, when
    \<^verbatim>\<open>dry_run\<close> is true, with no call to the version-control client;
  \<^item> \<open>ArtifactsGenerated\<close> with the length of that list, when \<^verbatim>\<open>dry_run\<close> is
    false and \<^verbatim>\<open>auto_create_pr\<close> is off, again with no call;
  \<^item> \<open>Published\<close>, with \<^verbatim>\<open>files_changed\<close> the length of that list, when
    \<^verbatim>\<open>dry_run\<close> is false, \<^verbatim>\<open>auto_create_pr\<close> is on and the three calls that the
    run makes to the client succeed: \<^verbatim>\<open>create_branch\<close>, \<^verbatim>\<open>commit_files\<close> and
    \<^verbatim>\<open>create_pull_request\<close>, with the arguments the source gives them. These three
    are then the only calls.
\<close>

theorem gate_passed_outcomes:
  assumes valid: "validate_diff_plan p = Inr ()"
    and conf: "dp_confidence p = Some conf" "\<not> conf < confidence_threshold config"
    and gaps: "\<forall>g\<in>set (plan_gaps p).
        gap_type g \<noteq> None \<and> gap_priority g \<noteq> None \<and> gap_description g \<noteq> None"
    and patches: "\<forall>pt\<in>set (get_or [] (dp_patch_plan p)).
        patch_file pt \<noteq> None \<and> patch_action pt \<noteq> None"
  shows "\<exists>c arts description repo_name archs types.
     build_template_context env p repo_url = Inr c
     \<and> fst (generate_artifacts env p c) = Inr arts
     \<and> generate_pr_description env p arts c = Inr description
     \<and> dp_repo p = Some repo_name \<and> dp_archetypes p = Some archs
     \<and> gap_types (plan_gaps p) = Inr types
     \<and> (dry_run \<longrightarrow>
          (\<exists>out.
             process_diff_plan env config p repo_url dry_run =
               (Inr (DryRun (dp_diff_plan_id p) (map (\<lambda>a. (file_path a, action a)) arts)
                       description), out)
             \<and> (\<forall>ev\<in>set out. \<not> is_vcs_call ev)))
     \<and> (\<not> dry_run \<and> \<not> auto_create_pr config \<longrightarrow>
          (\<exists>out.
             process_diff_plan env config p repo_url dry_run =
               (Inr (ArtifactsGenerated (dp_diff_plan_id p) (length arts)), out)
             \<and> (\<forall>ev\<in>set out. \<not> is_vcs_call ev)))
     \<and> (\<not> dry_run \<and> auto_create_pr config \<longrightarrow>
          (\<forall>pr.
             let branch_name =
                   branch_prefix config @ ''-'' @ repo_name @ ''-'' @ str_int (now_timestamp env);
                 message = text_lines [
                   ''feat(observability): Add instrumentation via Autopilot'',
                   '''',
                   ''Addresses gaps detected by Scout Agent:'',
                   join ''\<newline>'' (map (\<lambda>t. ''- '' @ t) types),
                   '''',
                   ''Diff Plan ID: '' @ get_or ''N/A'' (dp_diff_plan_id p),
                   ''Confidence: '' @ fmt_pct env conf];
                 pr_title =
                   ''feat(observability): Add '' @ join '', '' (take 2 archs) @ '' instrumentation'';
                 labels = pr_labels config @ map (\<lambda>a. ''archetype:'' @ a) (take 2 archs)
             in vcs_create_branch env repo_url branch_name (default_branch config) = None
                \<and> vcs_commit_files env repo_url branch_name (files_to_commit arts) message = None
                \<and> vcs_create_pull_request env repo_url pr_title description branch_name
                      (default_branch config) labels = Inr pr
                \<longrightarrow>
                (\<exists>out.
                   process_diff_plan env config p repo_url dry_run =
                     (Inr (Published
                        \<lparr>pub_diff_plan_id = dp_diff_plan_id p, pr_number = pr_result_number pr,
                         pr_url = pr_result_url pr, branch = branch_name,
                         files_changed = length arts, pub_archetypes = archs,
                         gaps_addressed = types\<rparr>), out)
                   \<and> filter is_vcs_call out =
                       [CreateBranch repo_url branch_name (default_branch config),
                        CommitFiles repo_url branch_name (files_to_commit arts) message,
                        CreatePullRequest repo_url pr_title description branch_name
                          (default_branch config) labels])))"
proof -
  from valid obtain repo archs where p: "dp_repo p = Some repo" "dp_archetypes p = Some archs"
    by (auto simp: validate_ok_iff)
  from build_context_valid [OF valid] obtain c where
    ctx: "build_template_context env p repo_url = Inr c" ..
  from gaps have typed: "\<forall>g\<in>set (plan_gaps p). gap_type g \<noteq> None"
    by blast
  define types where "types = map (\<lambda>g. the (gap_type g)) (plan_gaps p)"
  have types: "gap_types (plan_gaps p) = Inr types"
    unfolding types_def by (rule gap_types_typed [OF typed])
  from generate_artifacts_ok [OF typed patches] obtain arts out where
    ga: "generate_artifacts env p c = (Inr arts, out)" by blast
  from generate_artifacts_prints [of env p c] ga have out: "\<forall>ev\<in>set out. \<not> is_vcs_call ev"
    by simp
  from generate_pr_description_ok [OF gaps] obtain d where
    d: "generate_pr_description env p arts c = Inr d" by blast
  from process_past_gate [OF valid conf ctx, of dry_run] ga d obtain header where
    header: "\<forall>ev\<in>set header. \<not> is_vcs_call ev"
    and run: "process_diff_plan env config p repo_url dry_run =
       (let generated = Print (''  Generated '' @ str_nat (length arts) @ '' files'')
        in if dry_run then
             (Inr (DryRun (dp_diff_plan_id p) (map (\<lambda>a. (file_path a, action a)) arts) d),
              header @ out @ [generated])
           else if auto_create_pr config then
             apsnd ((@) (header @ out @ [generated, Print ''\<newline>Creating Pull Request...'']))
               (create_pull_request env config repo_url p arts d)
           else
             (Inr (ArtifactsGenerated (dp_diff_plan_id p) (length arts)),
              header @ out @ [generated]))"
    by auto
  from ga have ga': "fst (generate_artifacts env p c) = Inr arts"
    by simp
  have dry: "dry_run \<longrightarrow>
      (\<exists>out.
         process_diff_plan env config p repo_url dry_run =
           (Inr (DryRun (dp_diff_plan_id p) (map (\<lambda>a. (file_path a, action a)) arts) d), out)
         \<and> (\<forall>ev\<in>set out. \<not> is_vcs_call ev))"
    using run header out by (auto simp: is_vcs_call_def)
  have manual: "\<not> dry_run \<and> \<not> auto_create_pr config \<longrightarrow>
      (\<exists>out.
         process_diff_plan env config p repo_url dry_run =
           (Inr (ArtifactsGenerated (dp_diff_plan_id p) (length arts)), out)
         \<and> (\<forall>ev\<in>set out. \<not> is_vcs_call ev))"
    using run header out by (auto simp: is_vcs_call_def)
  let ?branch = "branch_prefix config @ ''-'' @ repo @ ''-'' @ str_int (now_timestamp env)"
  let ?message = "text_lines [
     ''feat(observability): Add instrumentation via Autopilot'',
     '''',
     ''Addresses gaps detected by Scout Agent:'',
     join ''\<newline>'' (map (\<lambda>t. ''- '' @ t) types),
     '''',
     ''Diff Plan ID: '' @ get_or ''N/A'' (dp_diff_plan_id p),
     ''Confidence: '' @ fmt_pct env conf]"
  let ?title = "''feat(observability): Add '' @ join '', '' (take 2 archs) @ '' instrumentation''"
  let ?labels = "pr_labels config @ map (\<lambda>a. ''archetype:'' @ a) (take 2 archs)"
  have published: "\<exists>out.
       process_diff_plan env config p repo_url dry_run =
         (Inr (Published
            \<lparr>pub_diff_plan_id = dp_diff_plan_id p, pr_number = pr_result_number pr,
             pr_url = pr_result_url pr, branch = branch_name,
             files_changed = length arts, pub_archetypes = archs,
             gaps_addressed = types\<rparr>), out)
       \<and> filter is_vcs_call out =
           [CreateBranch repo_url branch_name (default_branch config),
            CommitFiles repo_url branch_name (files_to_commit arts) message,
            CreatePullRequest repo_url pr_title d branch_name (default_branch config) labels]"
    if mode: "\<not> dry_run" "auto_create_pr config"
      and names: "branch_name = ?branch" "message = ?message" "pr_title = ?title"
        "labels = ?labels"
      and cb: "vcs_create_branch env repo_url branch_name (default_branch config) = None"
      and cf: "vcs_commit_files env repo_url branch_name (files_to_commit arts) message = None"
      and cp: "vcs_create_pull_request env repo_url pr_title d branch_name
                 (default_branch config) labels = Inr pr"
    for pr branch_name message pr_title labels
  proof -
    note cpr = create_pull_request_calls [OF p(1) types conf(1) p(2)
        cb [unfolded names] cf [unfolded names] cp [unfolded names], folded names]
    have pre: "filter is_vcs_call header = []" "filter is_vcs_call out = []"
      using header out by (simp_all add: filter_no_vcs)
    from run mode show ?thesis
      unfolding cpr by (simp add: pre is_vcs_call_def)
  qed
  have publish: "\<not> dry_run \<and> auto_create_pr config \<longrightarrow>
          (\<forall>pr.
             let branch_name = ?branch; message = ?message; pr_title = ?title; labels = ?labels
             in vcs_create_branch env repo_url branch_name (default_branch config) = None
                \<and> vcs_commit_files env repo_url branch_name (files_to_commit arts) message = None
                \<and> vcs_create_pull_request env repo_url pr_title d branch_name
                      (default_branch config) labels = Inr pr
                \<longrightarrow>
                (\<exists>out.
                   process_diff_plan env config p repo_url dry_run =
                     (Inr (Published
                        \<lparr>pub_diff_plan_id = dp_diff_plan_id p, pr_number = pr_result_number pr,
                         pr_url = pr_result_url pr, branch = branch_name,
                         files_changed = length arts, pub_archetypes = archs,
                         gaps_addressed = types\<rparr>), out)
                   \<and> filter is_vcs_call out =
                       [CreateBranch repo_url branch_name (default_branch config),
                        CommitFiles repo_url branch_name (files_to_commit arts) message,
                        CreatePullRequest repo_url pr_title d branch_name
                          (default_branch config) labels]))"
    unfolding Let_def
    by (intro impI allI, elim conjE, rule published, (assumption | rule refl)+)
  show ?thesis
    by (intro exI conjI)
      (rule ctx, rule ga', rule d, rule p(1), rule p(2), rule types, rule dry, rule manual,
       rule publish)
qed


theorem gate_passed_outcomes_witness:
  "(\<exists>description out.
      process_diff_plan example_env default_config example_plan example_url True =
        (Inr (DryRun None
           [(''RUNBOOK.md'', ''create''),
            (''src/test/java/com/company/orders/enricher/otel/OrdersenricherOtelInterceptorTest.java'',
             ''create'')] description), out))
   \<and> (\<exists>out.
      process_diff_plan example_env manual_config example_plan example_url False =
        (Inr (ArtifactsGenerated None 2), out))
   \<and> (\<exists>pub out.
      process_diff_plan example_env default_config example_plan example_url False =
        (Inr (Published pub), out)
      \<and> files_changed pub = 2 \<and> pr_number pub = Some 42
      \<and> gaps_addressed pub = [''missing_otel'']
      \<and> length (filter is_vcs_call out) = 3)"
proof -
  have conf: "dp_confidence example_plan = Some float_0_87"
    by (simp add: example_plan_def)
  have gate: "\<not> float_0_87 < confidence_threshold default_config"
    "\<not> float_0_87 < confidence_threshold manual_config"
    by (simp_all add: manual_config_def default_config_def float_0_7_def float_0_87_def)
  have gaps: "\<forall>g\<in>set (plan_gaps example_plan).
      gap_type g \<noteq> None \<and> gap_priority g \<noteq> None \<and> gap_description g \<noteq> None"
    by (simp add: plan_gaps_def example_plan_def get_or_def otel_gap_def)
  have patches: "\<forall>pt\<in>set (get_or [] (dp_patch_plan example_plan)).
      patch_file pt \<noteq> None \<and> patch_action pt \<noteq> None"
    by (simp add: example_plan_def get_or_def)
  have vcs: "vcs_create_branch example_env u b d = None"
    "vcs_commit_files example_env u b f m = None"
    "vcs_create_pull_request example_env u t body h d l =
       Inr \<lparr>pr_result_number = Some 42,
            pr_result_url = Some ''https://github.com/company/orders-enricher/pull/42''\<rparr>"
    for u b d f m t body h l
    by (simp_all add: example_env_def)
  have mode: "auto_create_pr default_config" "\<not> auto_create_pr manual_config"
    by (simp_all add: manual_config_def default_config_def)
  have id: "dp_diff_plan_id example_plan = None"
    by (simp add: example_plan_def)
  have types: "gap_types (plan_gaps example_plan) = Inr [''missing_otel'']"
    by (simp add: plan_gaps_def example_plan_def get_or_def otel_gap_def getitem_def)
  from gate_passed_outcomes [where env = example_env and repo_url = example_url
      and dry_run = True, OF example_valid conf gate(1) gaps patches]
  have "\<exists>description out.
      process_diff_plan example_env default_config example_plan example_url True =
        (Inr (DryRun None
           [(''RUNBOOK.md'', ''create''),
            (''src/test/java/com/company/orders/enricher/otel/OrdersenricherOtelInterceptorTest.java'',
             ''create'')] description), out)"
    by (auto simp: example_context example_artifacts id)
  moreover
  from gate_passed_outcomes [where env = example_env and repo_url = example_url
      and dry_run = False, OF example_valid conf gate(2) gaps patches]
  have "\<exists>out.
      process_diff_plan example_env manual_config example_plan example_url False =
        (Inr (ArtifactsGenerated None 2), out)"
    by (auto simp: example_context example_artifacts id mode)
  moreover
  from gate_passed_outcomes [where env = example_env and repo_url = example_url
      and dry_run = False, OF example_valid conf gate(1) gaps patches]
  have "\<exists>pub out.
      process_diff_plan example_env default_config example_plan example_url False =
        (Inr (Published pub), out)
      \<and> files_changed pub = 2 \<and> pr_number pub = Some 42
      \<and> gaps_addressed pub = [''missing_otel'']
      \<and> length (filter is_vcs_call out) = 3"
    by (auto simp: example_context example_artifacts id mode vcs types Let_def)
  ultimately show ?thesis
    by (intro conjI)
qed

section \<open>The example plan of the specification\<close>

text \<open>
  Claim C1, evaluated on the code. The example plan (repository \<^verbatim>\<open>orders-enricher\<close>,
  language \<^verbatim>\<open>java\<close>, one gap of type \<^verbatim>\<open>missing_otel\<close>, confidence 0.87 against
  the threshold 0.7) passes validation and the gate, and a dry run lists two artifacts:
  \<^verbatim>\<open>RUNBOOK.md\<close> and the telemetry test, nothing under \<^verbatim>\<open>lineage/\<close> or
  \<^verbatim>\<open>contracts/\<close>. The path of the telemetry test, however, ends in
  \<^verbatim>\<open>OrdersenricherOtelInterceptorTest.java\<close>, not in
  \<^verbatim>\<open>OrdersEnricherOtelInterceptorTest.java\<close>: \<open>get_test_path\<close> removes the hyphen
  before it applies \<^verbatim>\<open>title()\<close>, while the variable \<^verbatim>\<open>CLASS_NAME\<close>, which names
  the class inside that file, capitalises each part of the name and is
  \<^verbatim>\<open>OrdersEnricher\<close>.
\<close>

theorem example_plan_dry_run:
  "validate_diff_plan example_plan = Inr ()
   \<and> confidence_threshold default_config = float_0_7
   \<and> build_template_context example_env example_plan example_url = Inr example_ctx
   \<and> to_dict example_env example_ctx ''CLASS_NAME'' = Some (PStr ''OrdersEnricher'')
   \<and> get_test_path example_ctx =
       ''src/test/java/com/company/orders/enricher/otel/OrdersenricherOtelInterceptorTest.java''
   \<and> (case fst (process_diff_plan example_env default_config example_plan example_url True) of
         Inr (DryRun plan_id manifest description) \<Rightarrow>
           manifest =
             [(''RUNBOOK.md'', ''create''),
              (''src/test/java/com/company/orders/enricher/otel/OrdersenricherOtelInterceptorTest.java'',
               ''create'')]
       | _ \<Rightarrow> False)"
proof -
  have conf: "dp_confidence example_plan = Some float_0_87"
    by (simp add: example_plan_def)
  have gate: "\<not> float_0_87 < confidence_threshold default_config"
    by (simp add: default_config_def float_0_7_def float_0_87_def)
  have "\<exists>d. generate_pr_description example_env example_plan arts example_ctx = Inr d" for arts
    by (rule generate_pr_description_ok)
      (simp add: plan_gaps_def example_plan_def get_or_def otel_gap_def)
  then obtain d where d: "generate_pr_description example_env example_plan
      [\<lparr>file_path = ''RUNBOOK.md'', content = render_runbook example_env example_ctx,
         action = ''create'', template = Some ''runbook''\<rparr>,
        \<lparr>file_path = ''src/test/java/com/company/orders/enricher/otel/OrdersenricherOtelInterceptorTest.java'',
         content = render_telemetry_test example_env example_ctx,
         action = ''create'', template = Some ''telemetry-test''\<rparr>] example_ctx = Inr d"
    by blast
  from process_past_gate [OF example_valid conf gate example_context, of True]
  have "fst (process_diff_plan example_env default_config example_plan example_url True) =
      Inr (DryRun (dp_diff_plan_id example_plan)
        [(''RUNBOOK.md'', ''create''),
         (''src/test/java/com/company/orders/enricher/otel/OrdersenricherOtelInterceptorTest.java'',
          ''create'')] d)"
    using d by (auto simp: example_artifacts)
  then have "(case fst (process_diff_plan example_env default_config example_plan example_url True) of
         Inr (DryRun plan_id manifest description) \<Rightarrow>
           manifest =
             [(''RUNBOOK.md'', ''create''),
              (''src/test/java/com/company/orders/enricher/otel/OrdersenricherOtelInterceptorTest.java'',
               ''create'')]
       | _ \<Rightarrow> False)"
    by simp
  moreover have "confidence_threshold default_config = float_0_7"
    by (simp add: default_config_def)
  ultimately show ?thesis
    using example_valid example_context example_class_name example_test_path by blast
qed

section \<open>A gap without a type\<close>

text \<open>
  Claim C9, as stated, fails: a plan that passes validation and has a gap without
  \<^verbatim>\<open>type\<close> does not reach artifact generation when its confidence is below the
  threshold. With confidence 0.5 against the threshold 0.7 the run returns \<open>Skipped\<close>
  and raises nothing.
\<close>

theorem untyped_gap_skipped_counterexample:
  "validate_diff_plan untyped_low_plan = Inr ()
   \<and> plan_gaps untyped_low_plan = [untyped_gap]
   \<and> gap_type untyped_gap = None
   \<and> process_diff_plan example_env default_config untyped_low_plan example_url False =
       (Inr (Skipped ''Confidence 0.50 below threshold 0.7'' None), [])"
  by (simp add: process_diff_plan_def validate_diff_plan_def required_fields_def getitem_def
      untyped_low_plan_def untyped_plan_def example_plan_def untyped_gap_def plan_gaps_def
      get_or_def default_config_def float_0_7_def float_0_87_def example_env_def return_io_def)

text \<open>
  Claim C9, amended. A Diff Plan that passes validation, whose confidence is not below the
  threshold and whose gaps contain an entry without \<^verbatim>\<open>type\<close> makes the run end
  in a \<open>KeyError\<close> raised by artifact generation, in every environment (so whether
  or not the templates of the gaps render), in dry-run mode or not, and before any call to
  the version-control client. When every patch instruction carries \<^verbatim>\<open>file\<close> and
  \<^verbatim>\<open>action\<close>, the error is the \<open>KeyError\<close> of the lookup \<^verbatim>\<open>g["type"]\<close>
  in the lineage-spec check, which lies outside the \<^verbatim>\<open>try\<close> of the loop over the gaps.
\<close>

theorem untyped_gap_aborts_run:
  assumes valid: "validate_diff_plan p = Inr ()"
    and conf: "dp_confidence p = Some conf" "\<not> conf < confidence_threshold config"
    and untyped: "\<exists>g\<in>set (plan_gaps p). gap_type g = None"
  shows "\<exists>k out.
     process_diff_plan env config p repo_url dry_run = (Inl (KeyError k), out)
     \<and> (\<forall>ev\<in>set out. \<not> is_vcs_call ev)
     \<and> ((\<forall>pt\<in>set (get_or [] (dp_patch_plan p)). patch_file pt \<noteq> None \<and> patch_action pt \<noteq> None)
          \<longrightarrow> k = ''type'')"
proof -
  from build_context_valid [OF valid] obtain c where
    ctx: "build_template_context env p repo_url = Inr c" ..
  from generate_artifacts_untyped [OF untyped, of env c] obtain k out where
    ga: "generate_artifacts env p c = (Inl (KeyError k), out)"
    and k: "patch_artifacts (get_or [] (dp_patch_plan p)) \<noteq> Inl (KeyError ''file'')
            \<and> patch_artifacts (get_or [] (dp_patch_plan p)) \<noteq> Inl (KeyError ''action'')
            \<longrightarrow> k = ''type''"
    by blast
  from generate_artifacts_prints [of env p c] ga have out: "\<forall>ev\<in>set out. \<not> is_vcs_call ev"
    by simp
  from process_past_gate [OF valid conf ctx, of dry_run] ga obtain header where
    header: "\<forall>ev\<in>set header. \<not> is_vcs_call ev"
    and run: "process_diff_plan env config p repo_url dry_run = (Inl (KeyError k), header @ out)"
    by auto
  have "k = ''type''"
    if "\<forall>pt\<in>set (get_or [] (dp_patch_plan p)). patch_file pt \<noteq> None \<and> patch_action pt \<noteq> None"
    using patch_artifacts_ok [OF that] k by auto
  with run header out show ?thesis
    by auto
qed

theorem untyped_gap_aborts_run_witness:
  "\<exists>out. process_diff_plan example_env default_config untyped_plan example_url False =
      (Inl (KeyError ''type''), out)
     \<and> list_all (\<lambda>ev. \<not> is_vcs_call ev) out"
proof -
  have valid: "validate_diff_plan untyped_plan = Inr ()"
    by (simp add: validate_diff_plan_def required_fields_def getitem_def untyped_plan_def
        example_plan_def)
  have conf: "dp_confidence untyped_plan = Some float_0_87"
    by (simp add: untyped_plan_def example_plan_def)
  have gate: "\<not> float_0_87 < confidence_threshold default_config"
    by (simp add: default_config_def float_0_7_def float_0_87_def)
  have untyped: "\<exists>g\<in>set (plan_gaps untyped_plan). gap_type g = None"
    by (simp add: plan_gaps_def untyped_plan_def get_or_def untyped_gap_def)
  have patches: "\<forall>pt\<in>set (get_or [] (dp_patch_plan untyped_plan)).
      patch_file pt \<noteq> None \<and> patch_action pt \<noteq> None"
    by (simp add: untyped_plan_def example_plan_def get_or_def)
  from untyped_gap_aborts_run [OF valid conf gate untyped, of example_env example_url False]
    patches
  show ?thesis
    by (auto simp: list_all_iff)
qed

section \<open>The files that are committed\<close>

text \<open>
  Claim C10. Whenever a run ends in \<open>Published\<close> (so \<^verbatim>\<open>dry_run\<close> is false and
  \<^verbatim>\<open>auto_create_pr\<close> is on), the client's \<^verbatim>\<open>commit_files\<close> is called once, with
  the dictionary built from the generated artifacts: its keys are the paths, each once, and
  the content stored for a path is that of the last artifact with this path. The field
  \<^verbatim>\<open>files_changed\<close> of the result is the length of the artifact list, so it is never
  below the number of committed files and is above it as soon as two artifacts share a path.
\<close>

theorem committed_files_keyed_by_path:
  assumes run: "process_diff_plan env config p repo_url dry_run = (Inr (Published pub), events)"
  shows "\<exists>c arts out.
     build_template_context env p repo_url = Inr c
     \<and> generate_artifacts env p c = (Inr arts, out)
     \<and> \<not> dry_run \<and> auto_create_pr config
     \<and> commits events = [files_to_commit arts]
     \<and> distinct (map fst (files_to_commit arts))
     \<and> (\<forall>path. map_of (files_to_commit arts) path =
           (case filter (\<lambda>a. file_path a = path) arts of
              [] \<Rightarrow> None
            | a # as \<Rightarrow> Some (content (last (a # as)))))
     \<and> files_changed pub = length arts
     \<and> length (files_to_commit arts) \<le> files_changed pub
     \<and> (\<not> distinct (map file_path arts) \<longrightarrow> length (files_to_commit arts) < files_changed pub)"
proof -
  from process_published [OF run] obtain c arts out d evs where
    ctx: "build_template_context env p repo_url = Inr c"
    and ga: "generate_artifacts env p c = (Inr arts, out)"
    and cpr: "create_pull_request env config repo_url p arts d = (Inr (Published pub), evs)"
    and ev: "commits events = commits evs"
    and mode: "\<not> dry_run" "auto_create_pr config"
    by blast
  from create_pull_request_Inr [OF cpr] ev have
    n: "files_changed pub = length arts" and files: "commits events = [files_to_commit arts]"
    by auto
  from ctx ga mode files n files_to_commit_distinct [of arts] files_to_commit_last [of arts]
    files_to_commit_le [of arts] files_to_commit_less [of arts]
  show ?thesis
    by auto
qed

theorem committed_files_keyed_by_path_witness:
  "\<exists>pub events.
     process_diff_plan example_env default_config dup_plan example_url False =
       (Inr (Published pub), events)
     \<and> files_changed pub = 4
     \<and> map (map fst) (commits events) =
         [[''README.md'', ''RUNBOOK.md'',
           ''src/test/java/com/company/orders/enricher/otel/OrdersenricherOtelInterceptorTest.java'']]
     \<and> map (\<lambda>files. map_of files ''README.md'') (commits events) = [Some ''second'']"
proof -
  have valid: "validate_diff_plan dup_plan = Inr ()"
    by (simp add: validate_diff_plan_def required_fields_def getitem_def dup_plan_def
        example_plan_def)
  have conf: "dp_confidence dup_plan = Some float_0_87"
    by (simp add: dup_plan_def example_plan_def)
  have gate: "\<not> float_0_87 < confidence_threshold default_config"
    by (simp add: default_config_def float_0_7_def float_0_87_def)
  have gaps: "\<forall>g\<in>set (plan_gaps dup_plan).
      gap_type g \<noteq> None \<and> gap_priority g \<noteq> None \<and> gap_description g \<noteq> None"
    by (simp add: plan_gaps_def dup_plan_def example_plan_def get_or_def otel_gap_def)
  have patches: "\<forall>pt\<in>set (get_or [] (dp_patch_plan dup_plan)).
      patch_file pt \<noteq> None \<and> patch_action pt \<noteq> None"
    by (simp add: dup_plan_def example_plan_def get_or_def)
  have auto: "auto_create_pr default_config"
    by (simp add: default_config_def)
  have vcs: "\<forall>u b d. vcs_create_branch example_env u b d = None"
    "\<forall>u b f m. vcs_commit_files example_env u b f m = None"
    "\<forall>u t b h d l. \<exists>pr. vcs_create_pull_request example_env u t b h d l = Inr pr"
    by (simp_all add: example_env_def)
  from process_publishes [OF valid conf gate gaps patches auto vcs, of example_url]
  obtain pub events where
    run: "process_diff_plan example_env default_config dup_plan example_url False =
       (Inr (Published pub), events)"
    by blast
  from committed_files_keyed_by_path [OF run] dup_context dup_artifacts
  have "files_changed pub = 4
     \<and> map (map fst) (commits events) =
         [[''README.md'', ''RUNBOOK.md'',
           ''src/test/java/com/company/orders/enricher/otel/OrdersenricherOtelInterceptorTest.java'']]
     \<and> map (\<lambda>files. map_of files ''README.md'') (commits events) = [Some ''second'']"
    by (auto simp: files_to_commit_def)
  with run have "process_diff_plan example_env default_config dup_plan example_url False =
       (Inr (Published pub), events)
     \<and> files_changed pub = 4
     \<and> map (map fst) (commits events) =
         [[''README.md'', ''RUNBOOK.md'',
           ''src/test/java/com/company/orders/enricher/otel/OrdersenricherOtelInterceptorTest.java'']]
     \<and> map (\<lambda>files. map_of files ''README.md'') (commits events) = [Some ''second'']"
    by (rule conjI)
  then show ?thesis
    by - (rule exI, rule exI, assumption)
qed

section \<open>A template that fails to render\<close>

text \<open>
  Claim C5, as stated, fails: that the run completes normally does not hold for every Diff
  Plan. In the plan below the template of the first gap cannot be rendered, which is caught
  and reported, and the second gap has no \<^verbatim>\<open>type\<close>: the plan passes validation and
  the gate, and the run ends in the \<open>KeyError\<close> of the lineage check.
\<close>

theorem untyped_gap_after_failure_counterexample:
  "dp_gaps failing_untyped_plan = Some [otel_gap, untyped_gap]
   \<and> gap_template otel_gap = Some ''kafka-consumer-otel-java''
   \<and> render_template example_env ''kafka-consumer-otel-java'' example_ctx =
       Inl (OtherError ''[Errno 2] No such file or directory'')
   \<and> validate_diff_plan failing_untyped_plan = Inr ()
   \<and> build_template_context example_env failing_untyped_plan example_url = Inr example_ctx
   \<and> fst (process_diff_plan example_env default_config failing_untyped_plan example_url True) =
       Inl (KeyError ''type'')"
proof -
  have valid: "validate_diff_plan failing_untyped_plan = Inr ()"
    by (simp add: validate_diff_plan_def required_fields_def getitem_def
        failing_untyped_plan_def example_plan_def)
  have conf: "dp_confidence failing_untyped_plan = Some float_0_87"
    by (simp add: failing_untyped_plan_def example_plan_def)
  have gate: "\<not> float_0_87 < confidence_threshold default_config"
    by (simp add: default_config_def float_0_7_def float_0_87_def)
  have ctx: "build_template_context example_env failing_untyped_plan example_url =
      Inr example_ctx"
    by (simp add: build_template_context_def failing_untyped_plan_def example_plan_def
        example_env_def example_ctx_def getitem_def get_or_def plan_gaps_def otel_gap_def
        untyped_gap_def kafka_gap_def str_lower_def lower_char_def ascii_upper_def
        ascii_lower_def post_init_def get_owner_team_def get_otel_version_def)
  have ga: "fst (generate_artifacts example_env failing_untyped_plan example_ctx) =
      Inl (KeyError ''type'')"
    by (simp add: generate_artifacts_def failing_untyped_plan_def example_plan_def
        plan_gaps_def get_or_def otel_gap_def untyped_gap_def gap_artifacts_def
        example_render_fails getitem_def split: prod.splits)
  from process_past_gate [OF valid conf gate ctx, of True] ga
  have "fst (process_diff_plan example_env default_config failing_untyped_plan example_url True) =
       Inl (KeyError ''type'')"
    by (cases "generate_artifacts example_env failing_untyped_plan example_ctx") auto
  moreover have "dp_gaps failing_untyped_plan = Some [otel_gap, untyped_gap]"
    by (simp add: failing_untyped_plan_def)
  moreover have "gap_template otel_gap = Some ''kafka-consumer-otel-java''"
    by (simp add: otel_gap_def)
  ultimately show ?thesis
    using valid ctx example_render_fails by simp
qed

text \<open>
  Claim C5, amended. Let the template of one gap of the plan fail in \<open>render_template\<close>,
  with any exception (template not found, a file that cannot be read). Then, for every plan,
  the loop over the gaps yields the artifacts of the gaps before it followed by those of the
  gaps after it, and prints one warning with the template name and the exception; artifact
  generation as a whole returns what it returns for the plan in which this gap names no
  template, be it a list of artifacts or an exception of a later step. If moreover the plan
  passes validation and the confidence gate, its gaps each carry \<^verbatim>\<open>type\<close>,
  \<^verbatim>\<open>priority\<close> and \<^verbatim>\<open>description\<close> and its patch instructions each carry
  \<^verbatim>\<open>file\<close> and \<^verbatim>\<open>action\<close>, the run goes on with exactly those artifacts: a dry
  run returns \<open>DryRun\<close> listing them, a run without automatic publishing returns
  \<open>ArtifactsGenerated\<close> with their number, a publishing run returns what the publishing
  step returns for them, and the warning is among the lines printed.
\<close>

theorem render_failure_is_recovered:
  fixes p :: diff_plan
  defines "warning t e \<equiv>
    Print (''  Warning: Failed to render template '' @ t @ '': '' @ str_error e)"
  assumes gaps: "dp_gaps p = Some (gs1 @ g # gs2)"
    and tmpl: "gap_template g = Some t" "t \<noteq> []"
    and fails: "render_template env t c = Inl e"
  shows "gaps_artifacts env c (plan_gaps p) =
       (fst (gaps_artifacts env c gs1) @ fst (gaps_artifacts env c gs2),
        snd (gaps_artifacts env c gs1) @ warning t e # snd (gaps_artifacts env c gs2))
     \<and> fst (generate_artifacts env p c) =
         fst (generate_artifacts env (p\<lparr>dp_gaps := Some (gs1 @ g\<lparr>gap_template := None\<rparr> # gs2)\<rparr>) c)
     \<and> snd (generate_artifacts env p c) =
         snd (gaps_artifacts env c gs1) @ warning t e # snd (gaps_artifacts env c gs2)
     \<and> (validate_diff_plan p = Inr ()
          \<and> dp_confidence p = Some conf \<and> \<not> conf < confidence_threshold config
          \<and> build_template_context env p repo_url = Inr c
          \<and> (\<forall>g\<in>set (plan_gaps p).
                gap_type g \<noteq> None \<and> gap_priority g \<noteq> None \<and> gap_description g \<noteq> None)
          \<and> (\<forall>pt\<in>set (get_or [] (dp_patch_plan p)).
                patch_file pt \<noteq> None \<and> patch_action pt \<noteq> None)
        \<longrightarrow> (\<exists>arts description.
               fst (generate_artifacts env
                      (p\<lparr>dp_gaps := Some (gs1 @ g\<lparr>gap_template := None\<rparr> # gs2)\<rparr>) c) =
                 Inr arts
               \<and> generate_pr_description env p arts c = Inr description
               \<and> fst (process_diff_plan env config p repo_url dry_run) =
                   (if dry_run then
                      Inr (DryRun (dp_diff_plan_id p)
                             (map (\<lambda>a. (file_path a, action a)) arts) description)
                    else if auto_create_pr config then
                      fst (create_pull_request env config repo_url p arts description)
                    else Inr (ArtifactsGenerated (dp_diff_plan_id p) (length arts)))
               \<and> warning t e \<in> set (snd (process_diff_plan env config p repo_url dry_run))))"
proof -
  let ?p' = "p\<lparr>dp_gaps := Some (gs1 @ g\<lparr>gap_template := None\<rparr> # gs2)\<rparr>"
  have pg: "plan_gaps p = gs1 @ g # gs2" "plan_gaps ?p' = gs1 @ g\<lparr>gap_template := None\<rparr> # gs2"
    using gaps by (simp_all add: plan_gaps_def get_or_def)
  have G: "gaps_artifacts env c (gs1 @ g # gs2) =
       (fst (gaps_artifacts env c gs1) @ fst (gaps_artifacts env c gs2),
        snd (gaps_artifacts env c gs1) @ warning t e # snd (gaps_artifacts env c gs2))"
    unfolding warning_def
    by (simp add: gaps_artifacts_append [of env c gs1] gaps_artifacts_Cons
        gap_artifacts_failed [OF tmpl fails] del: gaps_artifacts.simps)
  have G': "gaps_artifacts env c (gs1 @ g\<lparr>gap_template := None\<rparr> # gs2) =
       (fst (gaps_artifacts env c gs1) @ fst (gaps_artifacts env c gs2),
        snd (gaps_artifacts env c gs1) @ snd (gaps_artifacts env c gs2))"
    by (simp add: gaps_artifacts_append [of env c gs1] gaps_artifacts_Cons
        gap_artifacts_no_template del: gaps_artifacts.simps)
  have T: "gap_types (gs1 @ g\<lparr>gap_template := None\<rparr> # gs2) = gap_types (gs1 @ g # gs2)"
    by (rule gap_types_cong) simp
  have fst_eq: "fst (generate_artifacts env p c) = fst (generate_artifacts env ?p' c)"
    by (simp add: generate_artifacts_def pg G G' T Let_def split: sum.splits)
  have snd_eq: "snd (generate_artifacts env p c) =
         snd (gaps_artifacts env c gs1) @ warning t e # snd (gaps_artifacts env c gs2)"
    by (simp add: generate_artifacts_def pg G Let_def split: sum.splits)
  have run: "\<exists>arts description.
       fst (generate_artifacts env ?p' c) = Inr arts
       \<and> generate_pr_description env p arts c = Inr description
       \<and> fst (process_diff_plan env config p repo_url dry_run) =
           (if dry_run then
              Inr (DryRun (dp_diff_plan_id p)
                     (map (\<lambda>a. (file_path a, action a)) arts) description)
            else if auto_create_pr config then
              fst (create_pull_request env config repo_url p arts description)
            else Inr (ArtifactsGenerated (dp_diff_plan_id p) (length arts)))
       \<and> warning t e \<in> set (snd (process_diff_plan env config p repo_url dry_run))"
    if valid: "validate_diff_plan p = Inr ()"
      and conf: "dp_confidence p = Some conf" "\<not> conf < confidence_threshold config"
      and ctx: "build_template_context env p repo_url = Inr c"
      and wf: "\<forall>g\<in>set (plan_gaps p).
                gap_type g \<noteq> None \<and> gap_priority g \<noteq> None \<and> gap_description g \<noteq> None"
      and patches: "\<forall>pt\<in>set (get_or [] (dp_patch_plan p)).
                patch_file pt \<noteq> None \<and> patch_action pt \<noteq> None"
  proof -
    from wf have typed: "\<forall>g\<in>set (plan_gaps p). gap_type g \<noteq> None"
      by blast
    from generate_artifacts_ok [OF typed patches] obtain arts out where
      ga: "generate_artifacts env p c = (Inr arts, out)" by blast
    from generate_pr_description_ok [OF wf] obtain d where
      d: "generate_pr_description env p arts c = Inr d" by blast
    from ga snd_eq have w: "warning t e \<in> set out"
      by simp
    from process_past_gate [OF valid conf ctx, of dry_run] ga d obtain header where
      "process_diff_plan env config p repo_url dry_run =
       (let generated = Print (''  Generated '' @ str_nat (length arts) @ '' files'')
        in if dry_run then
             (Inr (DryRun (dp_diff_plan_id p) (map (\<lambda>a. (file_path a, action a)) arts) d),
              header @ out @ [generated])
           else if auto_create_pr config then
             apsnd ((@) (header @ out @ [generated, Print ''\<newline>Creating Pull Request...'']))
               (create_pull_request env config repo_url p arts d)
           else
             (Inr (ArtifactsGenerated (dp_diff_plan_id p) (length arts)),
              header @ out @ [generated]))"
      by auto
    with w have "fst (process_diff_plan env config p repo_url dry_run) =
           (if dry_run then
              Inr (DryRun (dp_diff_plan_id p) (map (\<lambda>a. (file_path a, action a)) arts) d)
            else if auto_create_pr config then
              fst (create_pull_request env config repo_url p arts d)
            else Inr (ArtifactsGenerated (dp_diff_plan_id p) (length arts)))
       \<and> warning t e \<in> set (snd (process_diff_plan env config p repo_url dry_run))"
      by (simp add: Let_def)
    moreover from ga fst_eq have "fst (generate_artifacts env ?p' c) = Inr arts"
      by simp
    ultimately show ?thesis
      using d by blast
  qed
  from G fst_eq snd_eq pg(1) run show ?thesis
    by simp
qed

theorem render_failure_is_recovered_witness:
  "generate_artifacts empty_templates_env three_gaps_plan example_ctx =
     (fst (generate_artifacts empty_templates_env
        (three_gaps_plan\<lparr>dp_gaps :=
           Some [lineage_gap, otel_gap\<lparr>gap_template := None\<rparr>, contract_gap]\<rparr>) example_ctx),
      [Print (''  Warning: Failed to render template kafka-consumer-otel-java: ''
                @ ''Template not found: kafka-consumer-otel-java'')])
   \<and> (\<exists>description.
        fst (process_diff_plan empty_templates_env default_config three_gaps_plan example_url True) =
          Inr (DryRun None
             [(''RUNBOOK.md'', ''create''), (''lineage/orders-enricher.yaml'', ''create''),
              (''contracts/orders-enricher.yaml'', ''create''),
              (''src/test/java/com/company/orders/enricher/otel/OrdersenricherOtelInterceptorTest.java'',
               ''create'')] description))
   \<and> Print (''  Warning: Failed to render template kafka-consumer-otel-java: ''
               @ ''Template not found: kafka-consumer-otel-java'')
       \<in> set (snd (process_diff_plan empty_templates_env default_config three_gaps_plan
                      example_url True))
   \<and> fst (process_diff_plan empty_templates_env manual_config three_gaps_plan example_url False) =
       Inr (ArtifactsGenerated None 4)"
proof -
  have gaps: "dp_gaps three_gaps_plan = Some ([lineage_gap] @ otel_gap # [contract_gap])"
    by (simp add: three_gaps_plan_def)
  have tmpl: "gap_template otel_gap = Some ''kafka-consumer-otel-java''"
    "''kafka-consumer-otel-java'' \<noteq> []"
    by (simp_all add: otel_gap_def)
  have valid: "validate_diff_plan three_gaps_plan = Inr ()"
    by (simp add: validate_diff_plan_def required_fields_def getitem_def three_gaps_plan_def
        example_plan_def)
  have conf: "dp_confidence three_gaps_plan = Some float_0_87"
    by (simp add: three_gaps_plan_def example_plan_def)
  have gate: "\<not> float_0_87 < confidence_threshold default_config"
    by (simp add: default_config_def float_0_7_def float_0_87_def)
  have wf: "\<forall>g\<in>set (plan_gaps three_gaps_plan).
      gap_type g \<noteq> None \<and> gap_priority g \<noteq> None \<and> gap_description g \<noteq> None"
    by (simp add: plan_gaps_def three_gaps_plan_def get_or_def otel_gap_def lineage_gap_def
        contract_gap_def)
  have patches: "\<forall>pt\<in>set (get_or [] (dp_patch_plan three_gaps_plan)).
      patch_file pt \<noteq> None \<and> patch_action pt \<noteq> None"
    by (simp add: three_gaps_plan_def example_plan_def get_or_def)
  have id: "dp_diff_plan_id three_gaps_plan = None"
    by (simp add: three_gaps_plan_def example_plan_def)
  have arts: "fst (generate_artifacts empty_templates_env
        (three_gaps_plan\<lparr>dp_gaps :=
           Some [lineage_gap, otel_gap\<lparr>gap_template := None\<rparr>, contract_gap]\<rparr>) example_ctx) =
      Inr [\<lparr>file_path = ''RUNBOOK.md'', content = render_runbook empty_templates_env example_ctx,
             action = ''create'', template = Some ''runbook''\<rparr>,
           \<lparr>file_path = ''lineage/orders-enricher.yaml'',
             content = render_lineage_spec empty_templates_env example_ctx,
             action = ''create'', template = Some ''lineage-spec''\<rparr>,
           \<lparr>file_path = ''contracts/orders-enricher.yaml'',
             content = render_contract_stub empty_templates_env example_ctx,
             action = ''create'', template = Some ''contract-stub''\<rparr>,
           \<lparr>file_path = ''src/test/java/com/company/orders/enricher/otel/OrdersenricherOtelInterceptorTest.java'',
             content = render_telemetry_test empty_templates_env example_ctx,
             action = ''create'', template = Some ''telemetry-test''\<rparr>]"
    by (simp add: generate_artifacts_def three_gaps_plan_def example_plan_def plan_gaps_def
        get_or_def otel_gap_def lineage_gap_def contract_gap_def gap_artifacts_def getitem_def
        runbook_artifacts_def lineage_artifacts_def contract_artifacts_def
        telemetry_artifacts_def example_test_path)
      (simp add: example_ctx_def)
  have gate': "\<not> float_0_87 < confidence_threshold manual_config"
    by (simp add: manual_config_def default_config_def float_0_7_def float_0_87_def)
  have off: "\<not> auto_create_pr manual_config"
    by (simp add: manual_config_def)
  note main = render_failure_is_recovered [OF gaps tmpl empty_templates_render_fails,
      where c = example_ctx and conf = float_0_87 and config = default_config
        and repo_url = example_url and dry_run = True]
  note main' = render_failure_is_recovered [OF gaps tmpl empty_templates_render_fails,
      where c = example_ctx and conf = float_0_87 and config = manual_config
        and repo_url = example_url and dry_run = False]
  from main have "generate_artifacts empty_templates_env three_gaps_plan example_ctx =
     (fst (generate_artifacts empty_templates_env
        (three_gaps_plan\<lparr>dp_gaps :=
           Some [lineage_gap, otel_gap\<lparr>gap_template := None\<rparr>, contract_gap]\<rparr>) example_ctx),
      [Print (''  Warning: Failed to render template kafka-consumer-otel-java: ''
                @ ''Template not found: kafka-consumer-otel-java'')])"
    by (simp add: prod_eq_iff gap_artifacts_def lineage_gap_def contract_gap_def get_or_def
        str_error_def)
  moreover
  from main valid conf gate three_gaps_context wf patches
  have "(\<exists>description.
        fst (process_diff_plan empty_templates_env default_config three_gaps_plan example_url True) =
          Inr (DryRun None
             [(''RUNBOOK.md'', ''create''), (''lineage/orders-enricher.yaml'', ''create''),
              (''contracts/orders-enricher.yaml'', ''create''),
              (''src/test/java/com/company/orders/enricher/otel/OrdersenricherOtelInterceptorTest.java'',
               ''create'')] description))
     \<and> Print (''  Warning: Failed to render template kafka-consumer-otel-java: ''
               @ ''Template not found: kafka-consumer-otel-java'')
       \<in> set (snd (process_diff_plan empty_templates_env default_config three_gaps_plan
                      example_url True))"
    by (auto simp: arts id str_error_def)
  moreover
  from main' valid conf gate' three_gaps_context wf patches off
  have "fst (process_diff_plan empty_templates_env manual_config three_gaps_plan example_url False) =
       Inr (ArtifactsGenerated None 4)"
    by (auto simp: arts id)
  ultimately show ?thesis
    by simp
qed

section \<open>The lineage specification\<close>

text \<open>
  Claim C6, as stated, fails: the patch instructions of a plan are copied into the artifact
  list as they are. The example plan has no gap of type \<^verbatim>\<open>missing_lineage_spec\<close>;
  with one patch instruction for \<^verbatim>\<open>lineage/orders-enricher.yaml\<close> it passes
  validation and the gate, and the artifact list has an artifact at that path.
\<close>

theorem lineage_patch_counterexample:
  "validate_diff_plan lineage_patch_plan = Inr ()
   \<and> dp_confidence lineage_patch_plan = Some float_0_87
   \<and> \<not> float_0_87 < confidence_threshold default_config
   \<and> map gap_type (plan_gaps lineage_patch_plan) = [Some ''missing_otel'']
   \<and> build_template_context example_env lineage_patch_plan example_url = Inr example_ctx
   \<and> service_name example_ctx = ''orders-enricher''
   \<and> fst (generate_artifacts example_env lineage_patch_plan example_ctx) =
       Inr [\<lparr>file_path = ''lineage/orders-enricher.yaml'', content = ''spec'',
              action = ''update'', template = None\<rparr>,
            \<lparr>file_path = ''RUNBOOK.md'', content = render_runbook example_env example_ctx,
              action = ''create'', template = Some ''runbook''\<rparr>,
            \<lparr>file_path = ''src/test/java/com/company/orders/enricher/otel/OrdersenricherOtelInterceptorTest.java'',
              content = render_telemetry_test example_env example_ctx,
              action = ''create'', template = Some ''telemetry-test''\<rparr>]"
proof -
  have "validate_diff_plan lineage_patch_plan = Inr ()"
    by (simp add: validate_diff_plan_def required_fields_def getitem_def lineage_patch_plan_def
        example_plan_def)
  moreover have "dp_confidence lineage_patch_plan = Some float_0_87"
    by (simp add: lineage_patch_plan_def example_plan_def)
  moreover have "\<not> float_0_87 < confidence_threshold default_config"
    by (simp add: default_config_def float_0_7_def float_0_87_def)
  moreover have "map gap_type (plan_gaps lineage_patch_plan) = [Some ''missing_otel'']"
    by (simp add: plan_gaps_def lineage_patch_plan_def example_plan_def get_or_def otel_gap_def)
  moreover have "service_name example_ctx = ''orders-enricher''"
    by (simp add: example_ctx_def)
  moreover have "fst (generate_artifacts example_env lineage_patch_plan example_ctx) =
       Inr [\<lparr>file_path = ''lineage/orders-enricher.yaml'', content = ''spec'',
              action = ''update'', template = None\<rparr>,
            \<lparr>file_path = ''RUNBOOK.md'', content = render_runbook example_env example_ctx,
              action = ''create'', template = Some ''runbook''\<rparr>,
            \<lparr>file_path = ''src/test/java/com/company/orders/enricher/otel/OrdersenricherOtelInterceptorTest.java'',
              content = render_telemetry_test example_env example_ctx,
              action = ''create'', template = Some ''telemetry-test''\<rparr>]"
    by (simp add: generate_artifacts_def lineage_patch_plan_def example_plan_def plan_gaps_def
        get_or_def otel_gap_def gap_artifacts_def example_render_fails str_error_def
        getitem_def patch_artifact_def runbook_artifacts_def lineage_artifacts_def
        contract_artifacts_def telemetry_artifacts_def example_test_path)
  ultimately show ?thesis
    using lineage_patch_context by simp
qed

text \<open>
  Claim C6, amended. Take a Diff Plan whose gaps each carry \<^verbatim>\<open>type\<close>, whose patch
  instructions each carry \<^verbatim>\<open>file\<close> and \<^verbatim>\<open>action\<close>, and in which neither a
  rendered gap template nor a patch instruction writes \<^verbatim>\<open>lineage/{service_name}.yaml\<close>.
  Then artifact generation returns a list, and the artifacts of the list at that path are:
  exactly one, the synthesized lineage specification, if some gap has type
  \<^verbatim>\<open>missing_lineage_spec\<close>; none otherwise. If the plan passes validation and the
  confidence gate and its gaps also carry \<^verbatim>\<open>priority\<close> and \<^verbatim>\<open>description\<close>,
  the service name is the plan's \<^verbatim>\<open>repo\<close> and this list is the one the run goes on
  with: a dry run lists it, a run without automatic publishing reports its length, a
  publishing run hands it to the publishing step.
\<close>

theorem lineage_spec_iff_gap:
  fixes c :: TemplateContext
  defines "lineage_path \<equiv> ''lineage/'' @ service_name c @ ''.yaml''"
  assumes typed: "\<forall>g\<in>set (plan_gaps p). gap_type g \<noteq> None"
    and patches: "\<forall>pt\<in>set (get_or [] (dp_patch_plan p)).
        patch_file pt \<noteq> None \<and> patch_action pt \<noteq> None"
    and fresh_templates:
      "\<forall>a\<in>set (fst (gaps_artifacts env c (plan_gaps p))). file_path a \<noteq> lineage_path"
    and fresh_patches:
      "\<forall>pt\<in>set (get_or [] (dp_patch_plan p)). patch_file pt \<noteq> Some lineage_path"
  shows "\<exists>arts.
     fst (generate_artifacts env p c) = Inr arts
     \<and> filter (\<lambda>a. file_path a = lineage_path) arts =
         (if \<exists>g\<in>set (plan_gaps p). gap_type g = Some ''missing_lineage_spec''
          then [\<lparr>file_path = lineage_path, content = render_lineage_spec env c,
                  action = ''create'', template = Some ''lineage-spec''\<rparr>]
          else [])
     \<and> (validate_diff_plan p = Inr ()
          \<and> dp_confidence p = Some conf \<and> \<not> conf < confidence_threshold config
          \<and> build_template_context env p repo_url = Inr c
          \<and> (\<forall>g\<in>set (plan_gaps p). gap_priority g \<noteq> None \<and> gap_description g \<noteq> None)
        \<longrightarrow> dp_repo p = Some (service_name c)
            \<and> (\<exists>description.
                 generate_pr_description env p arts c = Inr description
                 \<and> fst (process_diff_plan env config p repo_url dry_run) =
                     (if dry_run then
                        Inr (DryRun (dp_diff_plan_id p)
                               (map (\<lambda>a. (file_path a, action a)) arts) description)
                      else if auto_create_pr config then
                        fst (create_pull_request env config repo_url p arts description)
                      else Inr (ArtifactsGenerated (dp_diff_plan_id p) (length arts)))))"
proof -
  note types = gap_types_typed [OF typed]
  from patch_artifacts_ok [OF patches] obtain from_patches where
    pa: "patch_artifacts (get_or [] (dp_patch_plan p)) = Inr from_patches" ..
  obtain from_gaps out where G: "gaps_artifacts env c (plan_gaps p) = (from_gaps, out)"
    by (cases "gaps_artifacts env c (plan_gaps p)")
  define arts where "arts =
    (from_gaps @ from_patches) @ runbook_artifacts env c (from_gaps @ from_patches)
      @ lineage_artifacts env c (map (\<lambda>g. the (gap_type g)) (plan_gaps p))
      @ contract_artifacts env c (map (\<lambda>g. the (gap_type g)) (plan_gaps p))
      @ telemetry_artifacts env c (map (\<lambda>g. the (gap_type g)) (plan_gaps p))"
  have ga: "generate_artifacts env p c = (Inr arts, out)"
    by (simp add: generate_artifacts_def G pa types Let_def arts_def)
  then have ga': "fst (generate_artifacts env p c) = Inr arts"
    by simp
  have f1: "filter (\<lambda>a. file_path a = lineage_path) from_gaps = []"
    using fresh_templates G by (simp add: filter_empty_conv)
  have "\<forall>a\<in>set from_patches. Some (file_path a) \<in> set (map patch_file (get_or [] (dp_patch_plan p)))"
    using patch_artifacts_paths [OF pa, symmetric] by simp
  then have "file_path a \<noteq> lineage_path" if "a \<in> set from_patches" for a
    using that fresh_patches by (metis (no_types, lifting) image_iff list.set_map)
  then have f2: "filter (\<lambda>a. file_path a = lineage_path) from_patches = []"
    by (simp add: filter_empty_conv)
  have f3: "filter (\<lambda>a. file_path a = lineage_path) (runbook_artifacts env c xs) = []" for xs
    by (simp add: runbook_artifacts_def lineage_path_def)
  have f4: "filter (\<lambda>a. file_path a = lineage_path) (contract_artifacts env c ts) = []" for ts
    by (simp add: contract_artifacts_def lineage_path_def)
  have f5: "filter (\<lambda>a. file_path a = lineage_path) (telemetry_artifacts env c ts) = []" for ts
    using get_test_path_not_lineage [of c "service_name c @ ''.yaml''"]
    by (simp add: telemetry_artifacts_def lineage_path_def Let_def)
  have mem: "''missing_lineage_spec'' \<in> set (map (\<lambda>g. the (gap_type g)) (plan_gaps p)) \<longleftrightarrow>
      (\<exists>g\<in>set (plan_gaps p). gap_type g = Some ''missing_lineage_spec'')"
    using typed by force
  have f6: "filter (\<lambda>a. file_path a = lineage_path)
        (lineage_artifacts env c (map (\<lambda>g. the (gap_type g)) (plan_gaps p))) =
      (if \<exists>g\<in>set (plan_gaps p). gap_type g = Some ''missing_lineage_spec''
       then [\<lparr>file_path = lineage_path, content = render_lineage_spec env c,
               action = ''create'', template = Some ''lineage-spec''\<rparr>]
       else [])"
    unfolding lineage_artifacts_def mem by (simp add: lineage_path_def)
  have filtered: "filter (\<lambda>a. file_path a = lineage_path) arts =
      (if \<exists>g\<in>set (plan_gaps p). gap_type g = Some ''missing_lineage_spec''
       then [\<lparr>file_path = lineage_path, content = render_lineage_spec env c,
               action = ''create'', template = Some ''lineage-spec''\<rparr>]
       else [])"
    unfolding arts_def filter_append f1 f2 f3 f4 f5 f6 by simp
  have run: "dp_repo p = Some (service_name c)
      \<and> (\<exists>description.
           generate_pr_description env p arts c = Inr description
           \<and> fst (process_diff_plan env config p repo_url dry_run) =
               (if dry_run then
                  Inr (DryRun (dp_diff_plan_id p)
                         (map (\<lambda>a. (file_path a, action a)) arts) description)
                else if auto_create_pr config then
                  fst (create_pull_request env config repo_url p arts description)
                else Inr (ArtifactsGenerated (dp_diff_plan_id p) (length arts))))"
    if valid: "validate_diff_plan p = Inr ()"
      and conf: "dp_confidence p = Some conf" "\<not> conf < confidence_threshold config"
      and ctx: "build_template_context env p repo_url = Inr c"
      and described: "\<forall>g\<in>set (plan_gaps p). gap_priority g \<noteq> None \<and> gap_description g \<noteq> None"
  proof -
    from typed described have wf: "\<forall>g\<in>set (plan_gaps p).
        gap_type g \<noteq> None \<and> gap_priority g \<noteq> None \<and> gap_description g \<noteq> None"
      by blast
    from generate_pr_description_ok [OF wf] obtain d where
      d: "generate_pr_description env p arts c = Inr d" by blast
    from process_past_gate [OF valid conf ctx, of dry_run] ga d obtain header where
      "process_diff_plan env config p repo_url dry_run =
       (let generated = Print (''  Generated '' @ str_nat (length arts) @ '' files'')
        in if dry_run then
             (Inr (DryRun (dp_diff_plan_id p) (map (\<lambda>a. (file_path a, action a)) arts) d),
              header @ out @ [generated])
           else if auto_create_pr config then
             apsnd ((@) (header @ out @ [generated, Print ''\<newline>Creating Pull Request...'']))
               (create_pull_request env config repo_url p arts d)
           else
             (Inr (ArtifactsGenerated (dp_diff_plan_id p) (length arts)),
              header @ out @ [generated]))"
      by auto
    then have "fst (process_diff_plan env config p repo_url dry_run) =
           (if dry_run then
              Inr (DryRun (dp_diff_plan_id p) (map (\<lambda>a. (file_path a, action a)) arts) d)
            else if auto_create_pr config then
              fst (create_pull_request env config repo_url p arts d)
            else Inr (ArtifactsGenerated (dp_diff_plan_id p) (length arts)))"
      by (simp add: Let_def)
    with d build_context_service_name [OF ctx] show ?thesis
      by blast
  qed
  from ga' filtered run show ?thesis
    by blast
qed

theorem lineage_spec_iff_gap_witness:
  "(\<exists>arts description.
      fst (process_diff_plan empty_templates_env default_config three_gaps_plan example_url True) =
        Inr (DryRun None (map (\<lambda>a. (file_path a, action a)) arts) description)
      \<and> filter (\<lambda>a. file_path a = ''lineage/orders-enricher.yaml'') arts =
          [\<lparr>file_path = ''lineage/orders-enricher.yaml'',
            content = render_lineage_spec empty_templates_env example_ctx,
            action = ''create'', template = Some ''lineage-spec''\<rparr>])
   \<and> (\<exists>(arts :: GeneratedArtifact list) description.
      fst (process_diff_plan example_env default_config example_plan example_url True) =
        Inr (DryRun None (map (\<lambda>a. (file_path a, action a)) arts) description)
      \<and> filter (\<lambda>a. file_path a = ''lineage/orders-enricher.yaml'') arts = [])"
proof -
  have gate: "\<not> float_0_87 < confidence_threshold default_config"
    by (simp add: default_config_def float_0_7_def float_0_87_def)
  have name: "service_name example_ctx = ''orders-enricher''"
    by (simp add: example_ctx_def)
  have valid3: "validate_diff_plan three_gaps_plan = Inr ()"
    by (simp add: validate_diff_plan_def required_fields_def getitem_def three_gaps_plan_def
        example_plan_def)
  have conf3: "dp_confidence three_gaps_plan = Some float_0_87"
    by (simp add: three_gaps_plan_def example_plan_def)
  have gaps3: "plan_gaps three_gaps_plan = [lineage_gap, otel_gap, contract_gap]"
    by (simp add: plan_gaps_def three_gaps_plan_def get_or_def)
  have typed3: "\<forall>g\<in>set (plan_gaps three_gaps_plan). gap_type g \<noteq> None"
    by (simp add: gaps3 otel_gap_def lineage_gap_def contract_gap_def)
  have described3: "\<forall>g\<in>set (plan_gaps three_gaps_plan).
      gap_priority g \<noteq> None \<and> gap_description g \<noteq> None"
    by (simp add: gaps3 otel_gap_def lineage_gap_def contract_gap_def)
  have patches3: "get_or [] (dp_patch_plan three_gaps_plan) = []"
    by (simp add: three_gaps_plan_def example_plan_def get_or_def)
  have fresh3: "fst (gaps_artifacts empty_templates_env example_ctx (plan_gaps three_gaps_plan)) = []"
    by (simp add: gaps3 gap_artifacts_def get_or_def otel_gap_def lineage_gap_def
        contract_gap_def empty_templates_render_fails)
  have id3: "dp_diff_plan_id three_gaps_plan = None"
    by (simp add: three_gaps_plan_def example_plan_def)
  have lin3: "\<exists>g\<in>set (plan_gaps three_gaps_plan). gap_type g = Some ''missing_lineage_spec''"
    by (simp add: gaps3 lineage_gap_def)
  have conf: "dp_confidence example_plan = Some float_0_87"
    by (simp add: example_plan_def)
  have gaps: "plan_gaps example_plan = [otel_gap]"
    by (simp add: plan_gaps_def example_plan_def get_or_def)
  have typed: "\<forall>g\<in>set (plan_gaps example_plan). gap_type g \<noteq> None"
    by (simp add: gaps otel_gap_def)
  have described: "\<forall>g\<in>set (plan_gaps example_plan).
      gap_priority g \<noteq> None \<and> gap_description g \<noteq> None"
    by (simp add: gaps otel_gap_def)
  have patches: "get_or [] (dp_patch_plan example_plan) = []"
    by (simp add: example_plan_def get_or_def)
  have fresh: "fst (gaps_artifacts example_env example_ctx (plan_gaps example_plan)) = []"
    by (simp add: gaps gap_artifacts_def get_or_def otel_gap_def example_render_fails)
  have id: "dp_diff_plan_id example_plan = None"
    by (simp add: example_plan_def)
  have lin: "\<not> (\<exists>g\<in>set (plan_gaps example_plan). gap_type g = Some ''missing_lineage_spec'')"
    by (simp add: gaps otel_gap_def)
  have pw3: "\<forall>pt\<in>set (get_or [] (dp_patch_plan three_gaps_plan)).
      patch_file pt \<noteq> None \<and> patch_action pt \<noteq> None"
    by (simp add: patches3)
  have ft3: "\<forall>a\<in>set (fst (gaps_artifacts empty_templates_env example_ctx
        (plan_gaps three_gaps_plan))).
      file_path a \<noteq> ''lineage/'' @ service_name example_ctx @ ''.yaml''"
    by (simp add: fresh3)
  have fp3: "\<forall>pt\<in>set (get_or [] (dp_patch_plan three_gaps_plan)).
      patch_file pt \<noteq> Some (''lineage/'' @ service_name example_ctx @ ''.yaml'')"
    by (simp add: patches3)
  from lineage_spec_iff_gap [OF typed3 pw3 ft3 fp3, where conf = float_0_87
      and config = default_config and repo_url = example_url and dry_run = True]
    valid3 conf3 gate three_gaps_context described3
  obtain arts3 d3 where
    run3: "fst (process_diff_plan empty_templates_env default_config three_gaps_plan
                  example_url True) =
        Inr (DryRun (dp_diff_plan_id three_gaps_plan)
               (map (\<lambda>a. (file_path a, action a)) arts3) d3)"
    and f3: "filter (\<lambda>a. file_path a = ''lineage/'' @ service_name example_ctx @ ''.yaml'') arts3 =
         (if \<exists>g\<in>set (plan_gaps three_gaps_plan). gap_type g = Some ''missing_lineage_spec''
          then [\<lparr>file_path = ''lineage/'' @ service_name example_ctx @ ''.yaml'',
                  content = render_lineage_spec empty_templates_env example_ctx,
                  action = ''create'', template = Some ''lineage-spec''\<rparr>]
          else [])"
    by auto
  from f3 lin3 have "filter (\<lambda>a. file_path a = ''lineage/orders-enricher.yaml'') arts3 =
          [\<lparr>file_path = ''lineage/orders-enricher.yaml'',
            content = render_lineage_spec empty_templates_env example_ctx,
            action = ''create'', template = Some ''lineage-spec''\<rparr>]"
    by (simp add: name)
  with run3 have "fst (process_diff_plan empty_templates_env default_config three_gaps_plan
                         example_url True) =
        Inr (DryRun None (map (\<lambda>a. (file_path a, action a)) arts3) d3)
      \<and> filter (\<lambda>a. file_path a = ''lineage/orders-enricher.yaml'') arts3 =
          [\<lparr>file_path = ''lineage/orders-enricher.yaml'',
            content = render_lineage_spec empty_templates_env example_ctx,
            action = ''create'', template = Some ''lineage-spec''\<rparr>]"
    by (simp add: id3)
  then have "\<exists>arts description.
      fst (process_diff_plan empty_templates_env default_config three_gaps_plan example_url True) =
        Inr (DryRun None (map (\<lambda>a. (file_path a, action a)) arts) description)
      \<and> filter (\<lambda>a. file_path a = ''lineage/orders-enricher.yaml'') arts =
          [\<lparr>file_path = ''lineage/orders-enricher.yaml'',
            content = render_lineage_spec empty_templates_env example_ctx,
            action = ''create'', template = Some ''lineage-spec''\<rparr>]"
    by - (rule exI, rule exI, assumption)
  moreover
  have pw: "\<forall>pt\<in>set (get_or [] (dp_patch_plan example_plan)).
      patch_file pt \<noteq> None \<and> patch_action pt \<noteq> None"
    by (simp add: patches)
  have ft: "\<forall>a\<in>set (fst (gaps_artifacts example_env example_ctx (plan_gaps example_plan))).
      file_path a \<noteq> ''lineage/'' @ service_name example_ctx @ ''.yaml''"
    by (simp add: fresh)
  have fp: "\<forall>pt\<in>set (get_or [] (dp_patch_plan example_plan)).
      patch_file pt \<noteq> Some (''lineage/'' @ service_name example_ctx @ ''.yaml'')"
    by (simp add: patches)
  from lineage_spec_iff_gap [OF typed pw ft fp, where conf = float_0_87
      and config = default_config and repo_url = example_url and dry_run = True]
    example_valid conf gate example_context described
  obtain arts d where
    run: "fst (process_diff_plan example_env default_config example_plan example_url True) =
        Inr (DryRun (dp_diff_plan_id example_plan)
               (map (\<lambda>a. (file_path a, action a)) arts) d)"
    and f: "filter (\<lambda>a. file_path a = ''lineage/'' @ service_name example_ctx @ ''.yaml'') arts =
         (if \<exists>g\<in>set (plan_gaps example_plan). gap_type g = Some ''missing_lineage_spec''
          then [\<lparr>file_path = ''lineage/'' @ service_name example_ctx @ ''.yaml'',
                  content = render_lineage_spec example_env example_ctx,
                  action = ''create'', template = Some ''lineage-spec''\<rparr>]
          else [])"
    by auto
  from f lin have "filter (\<lambda>a. file_path a = ''lineage/orders-enricher.yaml'') arts = []"
    by (simp add: name)
  with run have "fst (process_diff_plan example_env default_config example_plan example_url True) =
        Inr (DryRun None (map (\<lambda>a. (file_path a, action a)) arts) d)
      \<and> filter (\<lambda>a. file_path a = ''lineage/orders-enricher.yaml'') arts = []"
    by (simp add: id)
  then have "\<exists>(arts :: GeneratedArtifact list) description.
      fst (process_diff_plan example_env default_config example_plan example_url True) =
        Inr (DryRun None (map (\<lambda>a. (file_path a, action a)) arts) description)
      \<and> filter (\<lambda>a. file_path a = ''lineage/orders-enricher.yaml'') arts = []"
    by - (rule exI, rule exI, assumption)
  ultimately show ?thesis
    by (rule conjI)
qed

end
